theory Spec2Isabelle
  imports Complex_Main "HOL-Library.Monad_Syntax"
begin

section \<open>JavaScript values used by the screens\<close>

subsection \<open>Strings\<close>

text \<open>
  A JavaScript string is a sequence of UTF-16 code units; \<open>length\<close>, \<open>slice\<close>,
  \<open>trim\<close>, \<open>includes\<close> and the regular expressions of the screens (none has the
  \<open>u\<close> flag) all work on code units. A code unit is modelled by its number, and
  \<open>js\<close> turns an ASCII literal of the source into its code units.
\<close>

type_synonym jsstring = "nat list"

definition js :: "string \<Rightarrow> jsstring" where
  "js s = map of_char s"

text \<open>
  \<open>String.prototype.trim\<close> removes the WhiteSpace and LineTerminator code points
  of ECMAScript from both ends: TAB, LF, VT, FF, CR, SP, NBSP, U+1680, U+2000 to U+200A,
  U+2028, U+2029, U+202F, U+205F, U+3000 and U+FEFF. All of them are single code units.
\<close>

definition isWhiteSpace :: "nat \<Rightarrow> bool" where
  "isWhiteSpace c \<longleftrightarrow>
     c = 9 \<or> c = 10 \<or> c = 11 \<or> c = 12 \<or> c = 13 \<or> c = 32 \<or> c = 160 \<or> c = 5760 \<or>
     (8192 \<le> c \<and> c \<le> 8202) \<or> c = 8232 \<or> c = 8233 \<or> c = 8239 \<or> c = 8287 \<or>
     c = 12288 \<or> c = 65279"

definition trim :: "jsstring \<Rightarrow> jsstring" where
  "trim s = rev (dropWhile isWhiteSpace (rev (dropWhile isWhiteSpace s)))"

fun startsWith :: "'a list \<Rightarrow> 'a list \<Rightarrow> bool" where
  "startsWith s [] = True"
| "startsWith [] (n # ns) = False"
| "startsWith (c # cs) (n # ns) = (c = n \<and> startsWith cs ns)"

text \<open>\<open>s.includes(needle)\<close>: the needle occurs in \<open>s\<close> as a contiguous run.\<close>

fun includes_js :: "'a list \<Rightarrow> 'a list \<Rightarrow> bool" where
  "includes_js [] needle = (needle = [])"
| "includes_js (c # cs) needle = (startsWith (c # cs) needle \<or> includes_js cs needle)"

text \<open>
  \<open>Number.prototype.toString\<close> on an integer of the size of a clock reading or an
  HTTP status: the decimal digits, most significant first, after a minus sign for a
  negative number.
\<close>

fun natToString :: "nat \<Rightarrow> jsstring" where
  "natToString n = (if n < 10 then [48 + n] else natToString (n div 10) @ [48 + n mod 10])"

declare natToString.simps [simp del]

definition toString :: "int \<Rightarrow> jsstring" where
  "toString i = (if i < 0 then 45 # natToString (nat (- i)) else natToString (nat i))"

subsection \<open>Values\<close>

text \<open>
  What \<open>response.json()\<close> can deliver, and \<open>undefined\<close>, which reading an absent
  property yields. An object keeps its members in the order of the document; where a key
  is repeated \<open>JSON.parse\<close> keeps the last member.
\<close>

datatype jsval =
    JUndefined
  | JNull
  | JBool bool
  | JNum rat
  | JStr jsstring
  | JArr "jsval list"
  | JObj "(jsstring \<times> jsval) list"

text \<open>The values that count as true in a condition and on the left of \<open>&&\<close> and \<open>||\<close>.\<close>

fun truthy :: "jsval \<Rightarrow> bool" where
  "truthy JUndefined = False"
| "truthy JNull = False"
| "truthy (JBool b) = b"
| "truthy (JNum n) = (n \<noteq> 0)"
| "truthy (JStr s) = (s \<noteq> [])"
| "truthy (JArr xs) = True"
| "truthy (JObj kvs) = True"

text \<open>
  \<open>v.k\<close> for a property name \<open>k\<close> that no built-in prototype defines (the relay reads
  \<open>reply\<close>, \<open>message\<close>, \<open>output\<close>, \<open>choices\<close>, \<open>response\<close>, \<open>text\<close> and
  \<open>content\<close>): the member of an object, \<open>undefined\<close> on any other value, and a
  TypeError, here \<open>None\<close>, on \<open>null\<close> and \<open>undefined\<close>.
\<close>

fun readProp :: "jsval \<Rightarrow> jsstring \<Rightarrow> jsval option" where
  "readProp JUndefined k = None"
| "readProp JNull k = None"
| "readProp (JObj kvs) k = (case map_of (rev kvs) k of None \<Rightarrow> Some JUndefined | Some v \<Rightarrow> Some v)"
| "readProp v k = Some JUndefined"

text \<open>
  \<open>v[0]\<close>: the first element of an array, the first code unit of a string, the member
  \<open>"0"\<close> of an object.
\<close>

fun readIndex0 :: "jsval \<Rightarrow> jsval option" where
  "readIndex0 JUndefined = None"
| "readIndex0 JNull = None"
| "readIndex0 (JArr xs) = (case xs of [] \<Rightarrow> Some JUndefined | x # _ \<Rightarrow> Some x)"
| "readIndex0 (JStr s) = (case s of [] \<Rightarrow> Some JUndefined | c # _ \<Rightarrow> Some (JStr [c]))"
| "readIndex0 (JObj kvs) = readProp (JObj kvs) (js ''0'')"
| "readIndex0 v = Some JUndefined"

text \<open>
  A thrown value: the screens only ever catch Error objects (from \<open>fetch\<close>, from the
  body readers, from property reads, and their own \<open>new Error\<close>), of which they read
  \<open>name\<close> and \<open>message\<close>. \<open>message\<close> is read with \<open>?.\<close> and \<open>||\<close>, so it may be
  missing.
\<close>

record js_error =
  name :: jsstring
  message :: "jsstring option"

section \<open>The chat relay (app/(tabs)/ai.tsx)\<close>

record Message =
  id_msg :: jsstring
  text_msg :: jsval
  isUser :: bool
  timestamp :: int

text \<open>The user object of the identity provider, as far as the screen reads it.\<close>

record clerk_user =
  firstName :: "jsstring option"
  lastName :: "jsstring option"

text \<open>\<open>user?.firstName || 'User'\<close> and \<open>user?.lastName || ''\<close>.\<close>

definition userFirstName :: "clerk_user option \<Rightarrow> jsstring" where
  "userFirstName user =
     (case user of None \<Rightarrow> js ''User''
      | Some u \<Rightarrow> (case firstName u of None \<Rightarrow> js ''User''
                  | Some n \<Rightarrow> if n = [] then js ''User'' else n))"

definition userLastName :: "clerk_user option \<Rightarrow> jsstring" where
  "userLastName user =
     (case user of None \<Rightarrow> []
      | Some u \<Rightarrow> (case lastName u of None \<Rightarrow> [] | Some n \<Rightarrow> n))"

text \<open>
  The greeting of lines 73 and 240. Between \<open>!\<close> and \<open>I'm\<close> the source file holds the
  four code points U+00F0, U+0178, U+2018 and U+2039.
\<close>

definition greetingText :: "clerk_user option \<Rightarrow> jsstring" where
  "greetingText user =
     js ''Hello '' @ userFirstName user @ js '' '' @ userLastName user @ js ''! '' @
     [240, 376, 8216, 8249] @ js '' I'm your AI assistant. How can I help you today?''"

definition greeting :: "clerk_user option \<Rightarrow> int \<Rightarrow> Message" where
  "greeting user now =
     \<lparr>id_msg = js ''1'', text_msg = JStr (greetingText user), isUser = False, timestamp = now\<rparr>"

record chat_state =
  messages :: "Message list"
  inputText :: jsstring
  isLoading :: bool
  settingsVisible :: bool
  clearChatVisible :: bool

text \<open>The state of the screen when it mounts, at clock reading \<open>now\<close>.\<close>

definition initialChat :: "clerk_user option \<Rightarrow> int \<Rightarrow> chat_state" where
  "initialChat user now =
     \<lparr>messages = [greeting user now], inputText = [], isLoading = False,
      settingsVisible = False, clearChatVisible = False\<rparr>"

definition AI_API :: jsstring where
  "AI_API = js ''process.env.AI_API''"

text \<open>The completion callback of the sheet's closing animation.\<close>

definition closeSettings :: "chat_state \<Rightarrow> chat_state" where
  "closeSettings s = s\<lparr>settingsVisible := False, clearChatVisible := False\<rparr>"

definition confirmClearChat :: "clerk_user option \<Rightarrow> int \<Rightarrow> chat_state \<Rightarrow> chat_state" where
  "confirmClearChat user now s = closeSettings (s\<lparr>messages := [greeting user now]\<rparr>)"

subsection \<open>The request and what comes back\<close>

text \<open>
  The body of the POST request, before \<open>JSON.stringify\<close>; \<open>timestamp_rq\<close> is the
  clock reading whose ISO form is sent.
\<close>

record request_body =
  prompt_rq :: jsstring
  user_rq :: jsstring
  timestamp_rq :: int

record request =
  url :: jsstring
  method_rq :: jsstring
  contentType :: jsstring
  body :: request_body

text \<open>
  The Response object as far as the relay reads it: \<open>ok\<close>, \<open>status\<close>, and what
  \<open>await response.text()\<close> and \<open>await response.json()\<close> do, each either throwing
  or delivering.
\<close>

record response =
  ok :: bool
  status :: int
  text_result :: "js_error + jsstring"
  json_result :: "js_error + jsval"

text \<open>
  What one run of \<open>handleSendMessage\<close> reads from outside the screen: the clock at
  lines 196, 199, 131, 210/221 and 213/224, the outcome of the one \<open>fetch\<close> call (a
  rejection, which an abort by the 30 second timer is, or a response), and the text of
  the TypeError that the JavaScript engine raises when a property of \<open>null\<close> is read.
\<close>

record send_env =
  userIdNow :: int
  userDate :: int
  requestDate :: int
  fetchResult :: "js_error + response"
  nullReadMessage :: jsstring
  replyIdNow :: int
  replyDate :: int

text \<open>
  \<open>fetchWithTimeout\<close> hands on what \<open>fetch\<close> does: the response, or the rethrown
  error. The timer only decides whether \<open>fetch\<close> is aborted.
\<close>

definition fetchWithTimeout :: "js_error + response \<Rightarrow> js_error + response" where
  "fetchWithTimeout outcome =
     (case outcome of Inl error \<Rightarrow> Inl error | Inr response \<Rightarrow> Inr response)"

text \<open>The value of \<open>data.choices && data.choices[0]\<close>.\<close>

definition choicesFirst :: "jsval \<Rightarrow> jsval option" where
  "choicesFirst data = do {
     choices \<leftarrow> readProp data (js ''choices'');
     if truthy choices then readIndex0 choices else Some choices
   }"

text \<open>
  Lines 158 to 175, the chain of conditions on the parsed body. \<open>None\<close> is the
  TypeError of a property read on \<open>null\<close>.
\<close>

definition extractReply :: "jsval \<Rightarrow> jsval option" where
  "extractReply data = do {
     reply \<leftarrow> readProp data (js ''reply'');
     if truthy reply then Some reply else do {
     message \<leftarrow> readProp data (js ''message'');
     if truthy message then Some message else do {
     output \<leftarrow> readProp data (js ''output'');
     if truthy output then Some output else do {
     first \<leftarrow> choicesFirst data;
     text \<leftarrow> (if truthy first then readProp first (js ''text'') else Some first);
     if truthy text then Some text else do {
     first' \<leftarrow> choicesFirst data;
     msg \<leftarrow> (if truthy first' then readProp first' (js ''message'') else Some first');
     if truthy msg then readProp msg (js ''content'') else do {
     response \<leftarrow> readProp data (js ''response'');
     if truthy response then Some response
     else if (case data of JStr s \<Rightarrow> True | _ \<Rightarrow> False) then Some data
     else Some (JStr (js ''I received your message but couldn't process the response format.''))
     }}}}}
   }"

text \<open>\<open>err.message?.includes(s)\<close>, as a condition.\<close>

definition messageIncludes :: "js_error \<Rightarrow> jsstring \<Rightarrow> bool" where
  "messageIncludes err s = (case message err of None \<Rightarrow> False | Some m \<Rightarrow> includes_js m s)"

text \<open>The \<open>catch\<close> block of \<open>fetchAIResponse\<close>, lines 176 to 189.\<close>

definition catchReply :: "js_error \<Rightarrow> jsval" where
  "catchReply err =
     (if name err = js ''AbortError'' \<or> messageIncludes err (js ''timeout'') \<or>
         messageIncludes err (js ''abort'')
      then JStr (js ''The request took too long to complete. Please try again in a moment.'')
      else if messageIncludes err (js ''Network request failed'') \<or>
              messageIncludes err (js ''fetch'')
      then JStr (js ''I'm having trouble connecting to the network. Please check your internet connection and try again.'')
      else if messageIncludes err (js ''Failed to fetch'')
      then JStr (js ''I couldn't reach the AI service. Please check your API endpoint and try again.'')
      else JStr (js ''I apologize, but I'm having trouble processing your request right now. Please try again in a moment.''))"

text \<open>
  \<open>fetchAIResponse\<close> returns the requests it has issued and its result: \<open>Inr\<close> a
  returned value, \<open>Inl\<close> an error that leaves the function. (Every \<open>throw\<close> of the
  body is inside its \<open>try\<close>, so the model never produces \<open>Inl\<close>; the caller has a
  \<open>catch\<close> all the same.)
\<close>

definition fetchAIResponse ::
  "clerk_user option \<Rightarrow> send_env \<Rightarrow> jsstring \<Rightarrow> request list \<times> (js_error + jsval)" where
  "fetchAIResponse usr env prompt =
     (if AI_API = []
      then ([], Inr (JStr (js ''I'm currently not configured properly. Please check the API settings.'')))
      else
        let req = \<lparr>url = AI_API, method_rq = js ''POST'', contentType = js ''application/json'',
                   body = \<lparr>prompt_rq = trim prompt,
                           user_rq = trim (userFirstName usr @ js '' '' @ userLastName usr),
                           timestamp_rq = requestDate env\<rparr>\<rparr>
        in ([req], Inr
          (case fetchWithTimeout (fetchResult env) of
             Inl err \<Rightarrow> catchReply err
           | Inr response \<Rightarrow>
               if \<not> ok response then
                 (case text_result response of
                    Inl err \<Rightarrow> catchReply err
                  | Inr errorText \<Rightarrow>
                      if status response = 401
                      then JStr (js ''I'm having trouble authenticating with the AI service. Please check your API configuration.'')
                      else if status response = 429
                      then JStr (js ''I'm receiving too many requests right now. Please wait a moment and try again.'')
                      else if status response \<ge> 500
                      then JStr (js ''The AI service is currently experiencing issues. Please try again later.'')
                      else catchReply \<lparr>name = js ''Error'',
                             message = Some (js ''API returned status '' @ toString (status response) @
                                             js '': '' @ errorText)\<rparr>)
               else
                 (case json_result response of
                    Inl err \<Rightarrow> catchReply err
                  | Inr data \<Rightarrow>
                      (case extractReply data of
                         None \<Rightarrow> catchReply \<lparr>name = js ''TypeError'',
                                              message = Some (nullReadMessage env)\<rparr>
                       | Some reply \<Rightarrow> reply)))))"

subsection \<open>Sending\<close>

text \<open>
  \<open>handleSendMessage\<close> up to its \<open>await\<close> (lines 195 to 204), and from the
  settled call on (lines 209 to 229). Each \<open>setMessages\<close> appends to the transcript
  of the moment.
\<close>

definition sendBegin :: "send_env \<Rightarrow> chat_state \<Rightarrow> chat_state" where
  "sendBegin env s =
     s\<lparr>messages := messages s @
          [\<lparr>id_msg = toString (userIdNow env), text_msg = JStr (trim (inputText s)),
            isUser = True, timestamp = userDate env\<rparr>],
       inputText := [], isLoading := True\<rparr>"

definition sendSettle :: "send_env \<Rightarrow> js_error + jsval \<Rightarrow> chat_state \<Rightarrow> chat_state" where
  "sendSettle env result s =
     (case result of
        Inr responseText \<Rightarrow>
          s\<lparr>messages := messages s @
               [\<lparr>id_msg = toString (replyIdNow env + 1), text_msg = responseText,
                 isUser = False, timestamp = replyDate env\<rparr>]\<rparr>
      | Inl error \<Rightarrow>
          s\<lparr>messages := messages s @
               [\<lparr>id_msg = toString (replyIdNow env + 1),
                 text_msg = (case message error of
                               None \<Rightarrow> JStr (js ''I'm sorry, something went wrong. Please try again later.'')
                             | Some m \<Rightarrow> if m = [] then JStr (js ''I'm sorry, something went wrong. Please try again later.'') else JStr m),
                 isUser = False, timestamp = replyDate env\<rparr>]\<rparr>)
     \<lparr>isLoading := False\<rparr>"

text \<open>
  \<open>handleSendMessage\<close> from the press to the end of its \<open>finally\<close> block, for a
  send during which nothing else happens on the screen: the new state and the requests
  issued. The prompt handed to \<open>fetchAIResponse\<close> is the input text of the render in
  which the button was pressed. What can happen between the two halves is the subject of
  the machine \<open>chatAct\<close> below.
\<close>


definition handleSendMessage ::
  "clerk_user option \<Rightarrow> send_env \<Rightarrow> chat_state \<Rightarrow> chat_state \<times> request list" where
  "handleSendMessage usr env s =
     (if trim (inputText s) = [] \<or> isLoading s then (s, [])
      else case fetchAIResponse usr env (inputText s) of
             (reqs, result) \<Rightarrow> (sendSettle env result (sendBegin env s), reqs))"

subsection \<open>The priority list, as the specification words it\<close>

text \<open>
  Reads that never throw: the member of an object, its first element, and
  \<open>undefined\<close> wherever there is none.
\<close>

fun member :: "jsval \<Rightarrow> jsstring \<Rightarrow> jsval" where
  "member (JObj kvs) k = (case map_of (rev kvs) k of None \<Rightarrow> JUndefined | Some v \<Rightarrow> v)"
| "member v k = JUndefined"

fun firstElement :: "jsval \<Rightarrow> jsval" where
  "firstElement (JArr (x # xs)) = x"
| "firstElement (JStr (c # cs)) = JStr [c]"
| "firstElement (JObj kvs) = member (JObj kvs) (js ''0'')"
| "firstElement v = JUndefined"

text \<open>
  The recognised shapes in their order of priority, each as the value that is tested and
  the value that is returned when the tested one counts as true.
\<close>

definition replyProbes :: "jsval \<Rightarrow> (jsval \<times> jsval) list" where
  "replyProbes data =
     (let choice = firstElement (member data (js ''choices'')) in
      [(member data (js ''reply''), member data (js ''reply'')),
       (member data (js ''message''), member data (js ''message'')),
       (member data (js ''output''), member data (js ''output'')),
       (member choice (js ''text''), member choice (js ''text'')),
       (member choice (js ''message''), member (member choice (js ''message'')) (js ''content'')),
       (member data (js ''response''), member data (js ''response'')),
       (JBool (case data of JStr s \<Rightarrow> True | _ \<Rightarrow> False), data)])"

definition firstRecognized :: "jsval \<Rightarrow> jsval" where
  "firstRecognized data =
     (case find (\<lambda>probe. truthy (fst probe)) (replyProbes data) of
        Some probe \<Rightarrow> snd probe
      | None \<Rightarrow> JStr (js ''I received your message but couldn't process the response format.''))"

subsection \<open>The screen as a machine\<close>

text \<open>
  First the screen with every send run to its end before the next event: the input field
  changes (it is not editable while a send is in flight), the send button is pressed and
  the send runs to its end, the clearing of the chat is confirmed.
\<close>


datatype chat_event = ChangeText jsstring | PressSend send_env | ConfirmClear int

fun chatStep :: "clerk_user option \<Rightarrow> chat_state \<Rightarrow> chat_event \<Rightarrow> chat_state" where
  "chatStep usr s (ChangeText t) = (if isLoading s then s else s\<lparr>inputText := t\<rparr>)"
| "chatStep usr s (PressSend env) = fst (handleSendMessage usr env s)"
| "chatStep usr s (ConfirmClear now) = confirmClearChat usr now s"

definition chatRun :: "clerk_user option \<Rightarrow> chat_event list \<Rightarrow> chat_state \<Rightarrow> chat_state" where
  "chatRun usr evs s = foldl (chatStep usr) s evs"

text \<open>
  The clock readings that become identifiers keep ahead of the identifiers given so far:
  a send reads the clock after \<open>latest\<close>, its reply is stamped no earlier than the send,
  and the next send has to come after the reply's identifier.
\<close>

fun idClockAdvances :: "int \<Rightarrow> chat_event list \<Rightarrow> bool" where
  "idClockAdvances latest [] = True"
| "idClockAdvances latest (PressSend env # evs) =
     (latest < userIdNow env \<and> userIdNow env \<le> replyIdNow env \<and>
      idClockAdvances (replyIdNow env + 1) evs)"
| "idClockAdvances latest (ev # evs) = idClockAdvances latest evs"

text \<open>
  The invariant behind it: the identifiers are pairwise distinct and each is the decimal
  form of a number up to \<open>latest\<close>.
\<close>

definition idsBelow :: "int \<Rightarrow> chat_state \<Rightarrow> bool" where
  "idsBelow latest s \<longleftrightarrow>
     1 \<le> latest \<and> distinct (map id_msg (messages s)) \<and>
     (\<forall>m \<in> set (messages s). \<exists>n. n \<le> latest \<and> id_msg m = toString n)"


text \<open>
  Then the screen with the \<open>await\<close> of line 207 as a point where other events come
  in. Between the press and the settling of the request the handler is suspended;
  \<open>pending\<close> holds what it resumes with, its environment and what \<open>fetchAIResponse\<close>
  hands back. The settings sheet and with it "New Chat" and "Clear" stay usable while a
  send is in flight (lines 375, 543 to 550 and 598 to 600 do not read \<open>isLoading\<close>);
  the input field and the send button do not.
\<close>

record chat_machine =
  screen :: chat_state
  pending :: "(send_env \<times> (js_error + jsval)) option"

definition mounted :: "clerk_user option \<Rightarrow> int \<Rightarrow> chat_machine" where
  "mounted usr now = \<lparr>screen = initialChat usr now, pending = None\<rparr>"

datatype chat_action = Typed jsstring | SendPressed send_env | SendSettled | ClearConfirmed int

fun chatAct :: "clerk_user option \<Rightarrow> chat_machine \<Rightarrow> chat_action \<Rightarrow> chat_machine" where
  "chatAct usr m (Typed t) =
     (if isLoading (screen m) then m else m\<lparr>screen := (screen m)\<lparr>inputText := t\<rparr>\<rparr>)"
| "chatAct usr m (SendPressed env) =
     (if trim (inputText (screen m)) = [] \<or> isLoading (screen m) then m
      else \<lparr>screen = sendBegin env (screen m),
            pending = Some (env, snd (fetchAIResponse usr env (inputText (screen m))))\<rparr>)"
| "chatAct usr m SendSettled =
     (case pending m of
        None \<Rightarrow> m
      | Some (env, result) \<Rightarrow> \<lparr>screen = sendSettle env result (screen m), pending = None\<rparr>)"
| "chatAct usr m (ClearConfirmed now) = m\<lparr>screen := confirmClearChat usr now (screen m)\<rparr>"

definition chatActs :: "clerk_user option \<Rightarrow> chat_action list \<Rightarrow> chat_machine \<Rightarrow> chat_machine" where
  "chatActs usr acts m = foldl (chatAct usr) m acts"

text \<open>The actions that the screen ignores while a send is in flight.\<close>

fun ignoredInFlight :: "chat_action \<Rightarrow> bool" where
  "ignoredInFlight (Typed t) = True"
| "ignoredInFlight (SendPressed env) = True"
| "ignoredInFlight SendSettled = False"
| "ignoredInFlight (ClearConfirmed now) = False"

text \<open>
  The clock readings that become identifiers keep ahead, as in \<open>idClockAdvances\<close>, and
  the invariant for it: while a send is in flight every identifier is the decimal form of
  a number up to the clock reading its reply will be stamped with.
\<close>

fun actionClockAdvances :: "int \<Rightarrow> chat_action list \<Rightarrow> bool" where
  "actionClockAdvances latest [] = True"
| "actionClockAdvances latest (SendPressed env # acts) =
     (latest < userIdNow env \<and> userIdNow env \<le> replyIdNow env \<and>
      actionClockAdvances (replyIdNow env + 1) acts)"
| "actionClockAdvances latest (a # acts) = actionClockAdvances latest acts"

definition idsInFlight :: "int \<Rightarrow> chat_machine \<Rightarrow> bool" where
  "idsInFlight latest m \<longleftrightarrow>
     1 \<le> latest \<and> distinct (map id_msg (messages (screen m))) \<and>
     (case pending m of
        None \<Rightarrow> \<forall>msg \<in> set (messages (screen m)). \<exists>n. n \<le> latest \<and> id_msg msg = toString n
      | Some (env, result) \<Rightarrow>
          isLoading (screen m) \<and> 1 \<le> replyIdNow env \<and> replyIdNow env + 1 \<le> latest \<and>
          (\<forall>msg \<in> set (messages (screen m)). \<exists>n. n \<le> replyIdNow env \<and> id_msg msg = toString n))"

section \<open>What the handlers do to the outside\<close>

text \<open>
  The calls a handler makes, in the order it makes them: an alert with its title, its
  message and its buttons (each with what pressing it does; no button listed is the
  default one), the calls into the identity provider, and the navigation.
\<close>

datatype effect =
    Alert jsstring jsstring "(jsstring \<times> effect list) list"
  | AttemptEmailAddressVerification jsstring
  | PrepareEmailAddressVerification jsstring
  | SetActive "jsstring option"
  | SignInCreate jsstring jsstring
  | StartOAuthFlow jsstring
  | SignOut
  | RouterReplace jsstring

text \<open>
  What a provider call can throw, as the \<open>catch\<close> blocks tell it apart: an object with
  an \<open>errors\<close> member (which may be missing or empty), an Error without one, or
  anything else.
\<close>

record clerk_error_item =
  message_ce :: jsstring
  code_ce :: "jsstring option"
  longMessage :: "jsstring option"

datatype thrown =
    ClerkError "clerk_error_item list option"
  | PlainError jsstring
  | OtherValue

text \<open>\<open>a || b\<close> on strings that may be missing.\<close>

definition orElse :: "jsstring option \<Rightarrow> jsstring \<Rightarrow> jsstring" where
  "orElse a b = (case a of None \<Rightarrow> b | Some x \<Rightarrow> if x = [] then b else x)"

section \<open>The verification screen (VerifyEmailScreen)\<close>

record signup_resource =
  status_su :: jsstring
  emailAddress :: "jsstring option"
  createdSessionId :: "jsstring option"

text \<open>What \<open>useSignUp()\<close> hands to the screen; \<open>setActive\<close> tells whether it is defined.\<close>

record useSignUp =
  isLoaded :: bool
  setActive :: bool
  signUp :: "signup_resource option"

datatype verification_status = Pending | Verified | Failed

record verify_state =
  code :: jsstring
  isLoading_v :: bool
  isResending :: bool
  resendCooldown :: int
  email_v :: jsstring
  verificationStatus :: verification_status

text \<open>
  The state after mounting: the \<open>useState\<close> defaults, and the email taken from the
  route parameter or else from the sign-up (lines 40 to 52).
\<close>

definition initialVerify :: "jsstring option \<Rightarrow> useSignUp \<Rightarrow> verify_state" where
  "initialVerify params_email hook =
     \<lparr>code = [], isLoading_v = False, isResending = False, resendCooldown = 0,
      email_v = orElse params_email
                  (orElse (case signUp hook of None \<Rightarrow> None | Some su \<Rightarrow> emailAddress su) []),
      verificationStatus = Pending\<rparr>"

definition isDigit :: "nat \<Rightarrow> bool" where
  "isDigit c \<longleftrightarrow> 48 \<le> c \<and> c \<le> 57"

text \<open>
  The \<open>onChangeText\<close> of the code field, lines 356 to 359:
  \<open>text.replace(/[^0-9]/g, '').slice(0, 6)\<close>.
\<close>

definition onChangeText :: "jsstring \<Rightarrow> verify_state \<Rightarrow> verify_state" where
  "onChangeText text s = s\<lparr>code := take 6 (filter isDigit text), verificationStatus := Pending\<rparr>"

text \<open>
  The timer of lines 55 to 69: an interval exists only while the counter is above 0, and
  each time it fires the counter goes down by one.
\<close>

definition tick :: "verify_state \<Rightarrow> verify_state" where
  "tick s = (if resendCooldown s > 0 then s\<lparr>resendCooldown := resendCooldown s - 1\<rparr> else s)"

text \<open>The message of the \<open>catch\<close> block of \<open>handleVerify\<close>, lines 137 to 166.\<close>

definition verifyErrorMessage :: "thrown \<Rightarrow> jsstring" where
  "verifyErrorMessage err =
     (case err of
        ClerkError errors \<Rightarrow>
          (case errors of
             Some (firstError # rest) \<Rightarrow>
               if code_ce firstError = Some (js ''form_code_incorrect'')
               then js ''The verification code is incorrect. Please check and try again.''
               else if code_ce firstError = Some (js ''form_code_expired'')
               then js ''The verification code has expired. Please request a new one.''
               else if code_ce firstError = Some (js ''verification_failed'')
               then js ''Verification failed. The code may be invalid or expired.''
               else if code_ce firstError = Some (js ''form_identifier_exists'')
               then js ''This email is already registered. Please sign in instead.''
               else orElse (longMessage firstError)
                      (orElse (Some (message_ce firstError))
                         (js ''Failed to verify email. Please check the code and try again.''))
           | _ \<Rightarrow> js ''Failed to verify email. Please check the code and try again.'')
      | PlainError m \<Rightarrow>
          if includes_js m (js ''already verified'')
          then js ''This email is already verified. Please sign in instead.''
          else if includes_js m (js ''expired'')
          then js ''The verification code has expired. Please request a new one.''
          else m
      | OtherValue \<Rightarrow> js ''Failed to verify email. Please check the code and try again.'')"

text \<open>
  What the two provider calls of \<open>handleVerify\<close> do:
  \<open>attemptEmailAddressVerification\<close> and, after it, \<open>setActive\<close>.
\<close>

record verify_env =
  attemptResult :: "thrown + signup_resource"
  setActiveResult :: "thrown + unit"

text \<open>The \<open>catch\<close> and \<open>finally\<close> blocks of \<open>handleVerify\<close>.\<close>

definition verifyFailed :: "thrown \<Rightarrow> verify_state \<Rightarrow> verify_state \<times> effect list" where
  "verifyFailed err s =
     (s\<lparr>verificationStatus := Failed, isLoading_v := False\<rparr>,
      [Alert (js ''Verification Failed'') (verifyErrorMessage err) []])"

text \<open>
  \<open>handleVerify\<close>, lines 71 to 172, run to its end: the new state and the calls made.
  The four guards come first; each of them alerts and returns.
\<close>

definition handleVerify :: "useSignUp \<Rightarrow> verify_env \<Rightarrow> verify_state \<Rightarrow> verify_state \<times> effect list" where
  "handleVerify hook env s =
     (case signUp hook of
        None \<Rightarrow> (s, [Alert (js ''Error'') (js ''System not ready. Please try signing up again.'') []])
      | Some su \<Rightarrow>
          if \<not> isLoaded hook
          then (s, [Alert (js ''Error'') (js ''System not ready. Please try signing up again.'') []])
          else if status_su su \<noteq> js ''missing_requirements''
          then (s, [Alert (js ''Error'')
                      (js ''Cannot verify email at this time. Please try signing up again.'') []])
          else if trim (code s) = []
          then (s, [Alert (js ''Error'') (js ''Please enter the verification code'') []])
          else if length (code s) \<noteq> 6
          then (s, [Alert (js ''Error'') (js ''Verification code must be exactly 6 digits'') []])
          else
            let call = AttemptEmailAddressVerification (trim (code s)) in
            (case attemptResult env of
               Inl err \<Rightarrow> (case verifyFailed err s of (s', effs) \<Rightarrow> (s', call # effs))
             | Inr completeSignUp \<Rightarrow>
                 if status_su completeSignUp = js ''complete'' then
                   if setActive hook \<and> orElse (createdSessionId completeSignUp) [] \<noteq> [] then
                     (case setActiveResult env of
                        Inl err \<Rightarrow>
                          (case verifyFailed err s of
                             (s', effs) \<Rightarrow>
                               (s', call # SetActive (createdSessionId completeSignUp) # effs))
                      | Inr u \<Rightarrow>
                          (s\<lparr>verificationStatus := Verified, isLoading_v := False\<rparr>,
                           [call, SetActive (createdSessionId completeSignUp),
                            Alert (js ''Success! '' @ [55356, 57225])
                              (js ''Your email has been verified successfully! Welcome to FimPay.'')
                              [(js ''Get Started'', [RouterReplace (js ''/(tabs)'')])]]))
                   else (case verifyFailed (PlainError (js ''Failed to create session'')) s of
                           (s', effs) \<Rightarrow> (s', call # effs))
                 else (case verifyFailed
                              (PlainError (js ''Verification failed with status: '' @
                                           status_su completeSignUp)) s of
                         (s', effs) \<Rightarrow> (s', call # effs))))"

text \<open>The message of the \<open>catch\<close> block of \<open>handleResendCode\<close>, lines 202 to 213.\<close>

definition resendErrorMessage :: "thrown \<Rightarrow> jsstring" where
  "resendErrorMessage err =
     (case err of
        ClerkError errors \<Rightarrow>
          (case errors of
             Some (firstError # rest) \<Rightarrow>
               if code_ce firstError = Some (js ''form_identifier_exists'')
               then js ''This email is already registered and verified. Please sign in instead.''
               else orElse (Some (message_ce firstError))
                      (js ''Failed to resend verification code. Please try again.'')
           | _ \<Rightarrow> js ''Failed to resend verification code. Please try again.'')
      | PlainError m \<Rightarrow> m
      | OtherValue \<Rightarrow> js ''Failed to resend verification code. Please try again.'')"

text \<open>
  \<open>handleResendCode\<close>, lines 174 to 219, run to its end, given what
  \<open>prepareEmailAddressVerification\<close> does.
\<close>

definition handleResendCode ::
  "useSignUp \<Rightarrow> thrown + unit \<Rightarrow> verify_state \<Rightarrow> verify_state \<times> effect list" where
  "handleResendCode hook prepareResult s =
     (case signUp hook of
        None \<Rightarrow> (s, [])
      | Some su \<Rightarrow>
          if \<not> isLoaded hook \<or> resendCooldown s > 0 then (s, [])
          else if status_su su = js ''complete''
          then (s, [Alert (js ''Already Verified'')
                      (js ''Your email is already verified. Please sign in instead.'') []])
          else
            (case prepareResult of
               Inr u \<Rightarrow>
                 (s\<lparr>resendCooldown := 30, isResending := False\<rparr>,
                  [PrepareEmailAddressVerification (js ''email_code''),
                   Alert (js ''Code Sent! '' @ [9989])
                     (js ''A new verification code has been sent to '' @ email_v s @
                      js ''. Please check your inbox and spam folder.'') []])
             | Inl err \<Rightarrow>
                 (s\<lparr>isResending := False\<rparr>,
                  [PrepareEmailAddressVerification (js ''email_code''),
                   Alert (js ''Resend Failed'') (resendErrorMessage err) []])))"

text \<open>The \<open>disabled\<close> properties of the two buttons, lines 405 and 381.\<close>

definition resendDisabled :: "verify_state \<Rightarrow> bool" where
  "resendDisabled s \<longleftrightarrow> isResending s \<or> resendCooldown s > 0"

definition verifyDisabled :: "verify_state \<Rightarrow> bool" where
  "verifyDisabled s \<longleftrightarrow> code s = [] \<or> length (code s) \<noteq> 6 \<or> isLoading_v s"

text \<open>
  What happens to the screen: text arrives in the code field (not editable while a
  verification is in flight), a button is pressed (a disabled one does nothing), the
  timer fires.
\<close>

datatype verify_event =
    TypeCode jsstring
  | PressVerify verify_env
  | PressResend "thrown + unit"
  | Tick

fun verifyStep :: "useSignUp \<Rightarrow> verify_state \<Rightarrow> verify_event \<Rightarrow> verify_state \<times> effect list" where
  "verifyStep hook s (TypeCode text) = (if isLoading_v s then (s, []) else (onChangeText text s, []))"
| "verifyStep hook s (PressVerify env) =
     (if verifyDisabled s then (s, []) else handleVerify hook env s)"
| "verifyStep hook s (PressResend prepareResult) =
     (if resendDisabled s then (s, []) else handleResendCode hook prepareResult s)"
| "verifyStep hook s Tick = (tick s, [])"

fun verifyRun :: "useSignUp \<Rightarrow> verify_event list \<Rightarrow> verify_state \<Rightarrow> verify_state" where
  "verifyRun hook [] s = s"
| "verifyRun hook (ev # evs) s = verifyRun hook evs (fst (verifyStep hook s ev))"

text \<open>The pattern \<open>^[0-9]{6}$\<close>, and what the code field can hold.\<close>

definition sixDigits :: "jsstring \<Rightarrow> bool" where
  "sixDigits c \<longleftrightarrow> length c = 6 \<and> list_all isDigit c"

definition sanitized :: "verify_state \<Rightarrow> bool" where
  "sanitized s \<longleftrightarrow> length (code s) \<le> 6 \<and> list_all isDigit (code s)"

section \<open>The sign-in screen (SignInScreen)\<close>

record useSignIn =
  isLoaded_si :: bool
  setActive_si :: bool

record signin_state =
  email :: jsstring
  password :: jsstring
  showPassword :: bool
  isLoading_si :: bool

record signin_resource =
  status_si :: jsstring
  createdSessionId_si :: "jsstring option"

text \<open>What \<open>signIn.create\<close> and, after it, \<open>setActive\<close> do.\<close>

record signin_env =
  createResult :: "thrown + signin_resource"
  setActiveResult_si :: "thrown + unit"

definition signInErrorMessage :: "thrown \<Rightarrow> jsstring" where
  "signInErrorMessage err =
     (case err of
        ClerkError errors \<Rightarrow>
          (case errors of
             Some (firstError # rest) \<Rightarrow>
               orElse (Some (message_ce firstError))
                 (js ''An error occurred during sign in. Please try again.'')
           | _ \<Rightarrow> js ''An error occurred during sign in. Please try again.'')
      | PlainError m \<Rightarrow> m
      | OtherValue \<Rightarrow> js ''An error occurred during sign in. Please try again.'')"

text \<open>\<open>handleSubmit\<close>, lines 39 to 87, run to its end.\<close>

definition handleSubmit ::
  "useSignIn \<Rightarrow> signin_env \<Rightarrow> signin_state \<Rightarrow> signin_state \<times> effect list" where
  "handleSubmit hook env s =
     (if \<not> isLoaded_si hook \<or> \<not> setActive_si hook then (s, [])
      else if email s = [] \<or> password s = []
      then (s, [Alert (js ''Error'') (js ''Please fill in all fields'') []])
      else if includes_js (email s) (js '' '') \<or> includes_js (password s) (js '' '')
      then (s, [Alert (js ''Error'') (js ''Email and password cannot contain spaces'') []])
      else
        let call = SignInCreate (trim (email s)) (password s);
            failed = (\<lambda>err. Alert (js ''Sign In Failed'') (signInErrorMessage err) [])
        in (s\<lparr>isLoading_si := False\<rparr>,
            (case createResult env of
               Inl err \<Rightarrow> [call, failed err]
             | Inr result \<Rightarrow>
                 if status_si result = js ''complete'' then
                   (case setActiveResult_si env of
                      Inl err \<Rightarrow> [call, SetActive (createdSessionId_si result), failed err]
                    | Inr u \<Rightarrow> [call, SetActive (createdSessionId_si result),
                                RouterReplace (js ''/(tabs)'')])
                 else [call, Alert (js ''Error'')
                               (js ''Sign in failed. Please check your credentials.'') []])))"
















section \<open>The profile screen (app/(tabs)/profile.tsx)\<close>

record profile_state =
  settingsVisible_p :: bool
  deleteAccountVisible :: bool

text \<open>The completion callback of the sheet's closing animation, lines 57 to 66.\<close>

definition closeSettings_p :: "profile_state \<Rightarrow> profile_state" where
  "closeSettings_p s = s\<lparr>settingsVisible_p := False, deleteAccountVisible := False\<rparr>"

text \<open>
  \<open>confirmDeleteAccount\<close>, lines 80 to 91: one alert, whose only button calls
  \<open>signOut()\<close>, and the closing of the sheet.
\<close>

definition confirmDeleteAccount :: "profile_state \<Rightarrow> profile_state \<times> effect list" where
  "confirmDeleteAccount s =
     (closeSettings_p s,
      [Alert (js ''Account Deletion Initiated'')
         (js ''Your account deletion has been done. Any remaining balance of $2,458.75 will be transferred to your registered bank account within 3-5 business days.'')
         [(js ''OK'', [SignOut])]])"

section \<open>Properties\<close>

subsection \<open>Reading values\<close>

lemma readProp_member:
  "v \<noteq> JNull \<Longrightarrow> v \<noteq> JUndefined \<Longrightarrow> readProp v k = Some (member v k)"
  by (cases v) (simp_all split: option.split)

lemma truthy_defined: "truthy v \<Longrightarrow> v \<noteq> JNull \<and> v \<noteq> JUndefined"
  by (cases v) simp_all

lemma readIndex0_firstElement:
  "v \<noteq> JNull \<Longrightarrow> v \<noteq> JUndefined \<Longrightarrow> readIndex0 v = Some (firstElement v)"
proof (cases v)
  case (JArr xs) then show ?thesis by (cases xs) simp_all
next
  case (JStr s) then show ?thesis by (cases s) simp_all
next
  case (JObj kvs) then show ?thesis by (simp split: option.split)
qed simp_all

lemma falsy_firstElement: "\<not> truthy v \<Longrightarrow> firstElement v = JUndefined"
  by (cases v) simp_all

lemma falsy_member: "\<not> truthy v \<Longrightarrow> member v k = JUndefined"
  by (cases v) auto

lemma choicesFirst_eq:
  assumes "data \<noteq> JNull" "data \<noteq> JUndefined"
  shows "choicesFirst data =
     Some (if truthy (member data (js ''choices''))
           then firstElement (member data (js ''choices'')) else member data (js ''choices''))"
  using assms
  by (simp add: choicesFirst_def readProp_member readIndex0_firstElement truthy_defined)

text \<open>
  On a body that is not \<open>null\<close> no read of the chain throws, and the chain returns
  what the priority list returns.
\<close>

lemma extractReply_firstRecognized:
  assumes "data \<noteq> JNull" "data \<noteq> JUndefined"
  shows "extractReply data = Some (firstRecognized data)"
proof -
  let ?c = "member data (js ''choices'')"
  let ?f = "firstElement ?c"
  have probe: "(if truthy (if truthy ?c then ?f else ?c)
               then readProp (if truthy ?c then ?f else ?c) k
               else Some (if truthy ?c then ?f else ?c)) =
              Some (if truthy ?f then member ?f k else if truthy ?c then ?f else ?c)" for k
    by (auto simp: readProp_member truthy_defined falsy_firstElement)
  have inner: "\<not> truthy (if truthy ?f then member ?f k else if truthy ?c then ?f else ?c)
                 \<longleftrightarrow> \<not> truthy (member ?f k)" for k
    by (auto simp: falsy_member falsy_firstElement)
  show ?thesis
    using assms
    apply (simp add: extractReply_def choicesFirst_eq readProp_member probe inner
        firstRecognized_def replyProbes_def Let_def truthy_defined)
    apply (auto simp: readProp_member truthy_defined falsy_member falsy_firstElement split: jsval.splits)
    done
qed

subsection \<open>Decimal numerals\<close>

lemma natToString_nonempty: "natToString n \<noteq> []"
  by (subst natToString.simps) simp

lemma natToString_digits: "c \<in> set (natToString n) \<Longrightarrow> 48 \<le> c \<and> c \<le> 57"
proof (induction n rule: natToString.induct)
  case (1 n)
  then show ?case
    by (subst (asm) (2) natToString.simps) (auto split: if_splits)
qed

lemma natToString_inj: "natToString n = natToString m \<Longrightarrow> n = m"
proof (induction n arbitrary: m rule: natToString.induct)
  case (1 n)
  show ?case
  proof (cases "n < 10")
    case True
    show ?thesis
    proof (cases "m < 10")
      case True
      with \<open>n < 10\<close> "1.prems" show ?thesis
        by (simp add: natToString.simps)
    next
      case False
      with \<open>n < 10\<close> "1.prems" show ?thesis
        using natToString_nonempty [of "m div 10"]
        by (simp add: natToString.simps [of n] natToString.simps [of m])
    qed
  next
    case False
    show ?thesis
    proof (cases "m < 10")
      case True
      with False "1.prems" show ?thesis
        using natToString_nonempty [of "n div 10"]
        by (simp add: natToString.simps [of n] natToString.simps [of m])
    next
      case m: False
      from False m "1.prems"
      have "natToString (n div 10) = natToString (m div 10)" and "n mod 10 = m mod 10"
        by (simp_all add: natToString.simps [of n] natToString.simps [of m])
      with "1.IH" [OF False] have "n div 10 = m div 10" by blast
      with \<open>n mod 10 = m mod 10\<close> show ?thesis
        by (metis div_mult_mod_eq)
    qed
  qed
qed

text \<open>Two numbers with the same decimal form are the same number.\<close>

lemma toString_inj: "toString i = toString j \<Longrightarrow> i = j"
proof -
  assume eq: "toString i = toString j"
  have nominus: "natToString n \<noteq> 45 # xs" for n xs
  proof
    assume "natToString n = 45 # xs"
    then have "45 \<in> set (natToString n)" by simp
    then show False using natToString_digits by fastforce
  qed
  show ?thesis
  proof (cases "i < 0"; cases "j < 0")
    assume "i < 0" "j < 0"
    with eq have "nat (- i) = nat (- j)" by (simp add: toString_def natToString_inj)
    with \<open>i < 0\<close> \<open>j < 0\<close> show ?thesis by simp
  next
    assume "i < 0" "\<not> j < 0"
    with eq nominus [of "nat j" "natToString (nat (- i))"] show ?thesis
      by (simp add: toString_def)
  next
    assume "\<not> i < 0" "j < 0"
    with eq nominus [of "nat i" "natToString (nat (- j))"] show ?thesis
      by (simp add: toString_def)
  next
    assume "\<not> i < 0" "\<not> j < 0"
    with eq have "nat i = nat j" by (simp add: toString_def natToString_inj)
    with \<open>\<not> i < 0\<close> \<open>\<not> j < 0\<close> show ?thesis by simp
  qed
qed

lemma toString_1: "js ''1'' = toString 1"
  by (simp add: js_def toString_def natToString.simps)

subsection \<open>The chat relay\<close>

lemma AI_API_nonempty: "AI_API \<noteq> []"
  by (simp add: AI_API_def js_def)

text \<open>\<open>fetchAIResponse\<close> returns on every path; no error leaves it.\<close>

lemma fetchAIResponse_returns: "\<exists>reply. snd (fetchAIResponse usr env prompt) = Inr reply"
  by (simp add: fetchAIResponse_def Let_def)

lemma handleSendMessage_ids:
  assumes "trim (inputText s) \<noteq> []" and "\<not> isLoading s"
  shows "map id_msg (messages (fst (handleSendMessage usr env s))) =
     map id_msg (messages s) @ [toString (userIdNow env), toString (replyIdNow env + 1)]"
proof -
  obtain reqs result where "fetchAIResponse usr env (inputText s) = (reqs, result)"
    by (cases "fetchAIResponse usr env (inputText s)")
  with assms show ?thesis
    by (cases result) (simp_all add: handleSendMessage_def sendBegin_def sendSettle_def)
qed

lemma catchReply_string: "\<exists>t. catchReply err = JStr t"
  by (simp add: catchReply_def)

text \<open>Whenever the request does not succeed, the reply is a string.\<close>

lemma fetchAIResponse_failure_string:
  assumes "fetchResult env = Inl err \<or>
     (fetchResult env = Inr response \<and> (\<not> ok response \<or> json_result response = Inl err))"
  shows "\<exists>t. snd (fetchAIResponse usr env prompt) = Inr (JStr t)"
  using assms catchReply_string
  by (auto simp: fetchAIResponse_def AI_API_nonempty Let_def fetchWithTimeout_def
      split: sum.split)

text \<open>While a send is in flight, typing and pressing send change nothing.\<close>

lemma in_flight_ignored:
  "isLoading (screen m) \<Longrightarrow> list_all ignoredInFlight acts \<Longrightarrow> chatActs usr acts m = m"
proof (induction acts)
  case Nil
  then show ?case by (simp add: chatActs_def)
next
  case (Cons a acts)
  then have "chatAct usr m a = m" by (cases a) simp_all
  with Cons show ?case by (simp add: chatActs_def)
qed

lemma chatActs_append: "chatActs usr (xs @ ys) m = chatActs usr ys (chatActs usr xs m)"
  by (simp add: chatActs_def)

lemma chatActs_Cons: "chatActs usr (a # acts) m = chatActs usr acts (chatAct usr m a)"
  by (simp add: chatActs_def)

text \<open>
  C1, as the code has it. Take a send with text other than white space, while no send
  is in flight, whose reply is a string, as the record's type says and as it always is
  when the request does not succeed. The press appends the user's record with the trimmed
  input; when the request settles, one assistant record with the reply is appended to the
  transcript as it then is; and if nothing but ignored typing and pressing lies between
  the press and the settling, in particular no confirmed clearing of the chat, then the
  transcript has grown by exactly 2, the user's record first and the assistant's after
  it.
\<close>

theorem C1_send_appends_amended:
  assumes "trim (inputText (screen m)) \<noteq> []" and "\<not> isLoading (screen m)"
    and "snd (fetchAIResponse usr env (inputText (screen m))) = Inr (JStr reply)"
    and "list_all ignoredInFlight acts"
  shows "messages (screen (chatAct usr m (SendPressed env))) =
           messages (screen m) @
           [\<lparr>id_msg = toString (userIdNow env), text_msg = JStr (trim (inputText (screen m))),
             isUser = True, timestamp = userDate env\<rparr>] \<and>
         messages (screen (chatActs usr (SendPressed env # acts @ [SendSettled]) m)) =
           messages (screen m) @
           [\<lparr>id_msg = toString (userIdNow env), text_msg = JStr (trim (inputText (screen m))),
             isUser = True, timestamp = userDate env\<rparr>,
            \<lparr>id_msg = toString (replyIdNow env + 1), text_msg = JStr reply,
             isUser = False, timestamp = replyDate env\<rparr>] \<and>
         length (messages (screen (chatActs usr (SendPressed env # acts @ [SendSettled]) m))) =
           length (messages (screen m)) + 2 \<and>
         (\<forall>later. pending later = Some (env, Inr (JStr reply)) \<longrightarrow>
            messages (screen (chatAct usr later SendSettled)) =
              messages (screen later) @
              [\<lparr>id_msg = toString (replyIdNow env + 1), text_msg = JStr reply,
                isUser = False, timestamp = replyDate env\<rparr>]) \<and>
         (\<forall>err response.
            fetchResult env = Inl err \<or>
            (fetchResult env = Inr response \<and> (\<not> ok response \<or> json_result response = Inl err))
            \<longrightarrow> (\<exists>t. snd (fetchAIResponse usr env (inputText (screen m))) = Inr (JStr t)))"
proof -
  let ?pressed = "chatAct usr m (SendPressed env)"
  have pressed: "?pressed = \<lparr>screen = sendBegin env (screen m),
      pending = Some (env, Inr (JStr reply))\<rparr>"
    using assms(1-3) by simp
  then have loading: "isLoading (screen ?pressed)" by (simp add: sendBegin_def)
  have first: "messages (screen ?pressed) = messages (screen m) @
           [\<lparr>id_msg = toString (userIdNow env), text_msg = JStr (trim (inputText (screen m))),
             isUser = True, timestamp = userDate env\<rparr>]"
    unfolding pressed by (simp add: sendBegin_def)
  have run: "chatActs usr (SendPressed env # acts @ [SendSettled]) m = chatAct usr ?pressed SendSettled"
    using in_flight_ignored [OF loading assms(4), of usr]
    by (simp add: chatActs_Cons chatActs_append) (simp add: chatActs_def)
  have settle: "messages (screen (chatAct usr later SendSettled)) =
              messages (screen later) @
              [\<lparr>id_msg = toString (replyIdNow env + 1), text_msg = JStr reply,
                isUser = False, timestamp = replyDate env\<rparr>]"
    if "pending later = Some (env, Inr (JStr reply))" for later
    using that by (simp add: sendSettle_def)
  have both: "messages (screen (chatActs usr (SendPressed env # acts @ [SendSettled]) m)) =
           messages (screen m) @
           [\<lparr>id_msg = toString (userIdNow env), text_msg = JStr (trim (inputText (screen m))),
             isUser = True, timestamp = userDate env\<rparr>,
            \<lparr>id_msg = toString (replyIdNow env + 1), text_msg = JStr reply,
             isUser = False, timestamp = replyDate env\<rparr>]"
    unfolding run using settle [of ?pressed] first pressed by simp
  have strings: "\<exists>t. snd (fetchAIResponse usr env (inputText (screen m))) = Inr (JStr t)"
    if "fetchResult env = Inl err \<or>
            (fetchResult env = Inr response \<and> (\<not> ok response \<or> json_result response = Inl err))"
    for err response
    using that by (rule fetchAIResponse_failure_string)
  from first both settle strings show ?thesis by simp
qed

theorem C1_send_appends_amended_witness:
  "trim (inputText (screen (chatAct None (mounted None 1730000000000) (Typed (js '' hi ''))))) \<noteq> [] \<and>
   \<not> isLoading (screen (chatAct None (mounted None 1730000000000) (Typed (js '' hi '')))) \<and>
   list_all ignoredInFlight [Typed (js ''more''), SendPressed
     \<lparr>userIdNow = 1730000009000, userDate = 1730000009000, requestDate = 1730000009001,
      fetchResult = Inl \<lparr>name = js ''AbortError'', message = Some (js ''Aborted'')\<rparr>,
      nullReadMessage = [], replyIdNow = 1730000039000, replyDate = 1730000039000\<rparr>] \<and>
   map isUser (messages (screen (chatActs None
     (SendPressed
        \<lparr>userIdNow = 1730000000100, userDate = 1730000000100, requestDate = 1730000000101,
         fetchResult = Inl \<lparr>name = js ''AbortError'', message = Some (js ''Aborted'')\<rparr>,
         nullReadMessage = [], replyIdNow = 1730000030100, replyDate = 1730000030100\<rparr> #
      [Typed (js ''more''), SendPressed
        \<lparr>userIdNow = 1730000009000, userDate = 1730000009000, requestDate = 1730000009001,
         fetchResult = Inl \<lparr>name = js ''AbortError'', message = Some (js ''Aborted'')\<rparr>,
         nullReadMessage = [], replyIdNow = 1730000039000, replyDate = 1730000039000\<rparr>] @
      [SendSettled])
     (chatAct None (mounted None 1730000000000) (Typed (js '' hi '')))))) =
   [False, True, False]"
proof -
  let ?m = "chatAct None (mounted None 1730000000000) (Typed (js '' hi ''))"
  let ?env = "\<lparr>userIdNow = 1730000000100, userDate = 1730000000100,
         requestDate = 1730000000101,
         fetchResult = Inl \<lparr>name = js ''AbortError'', message = Some (js ''Aborted'')\<rparr>,
         nullReadMessage = [], replyIdNow = 1730000030100, replyDate = 1730000030100\<rparr>"
  let ?acts = "[Typed (js ''more''), SendPressed
        \<lparr>userIdNow = 1730000009000, userDate = 1730000009000, requestDate = 1730000009001,
         fetchResult = Inl \<lparr>name = js ''AbortError'', message = Some (js ''Aborted'')\<rparr>,
         nullReadMessage = [], replyIdNow = 1730000039000, replyDate = 1730000039000\<rparr>]"
  have input: "trim (inputText (screen ?m)) \<noteq> []"
    by (simp add: mounted_def initialChat_def trim_def isWhiteSpace_def js_def)
  have idle: "\<not> isLoading (screen ?m)"
    by (simp add: mounted_def initialChat_def)
  have reply: "snd (fetchAIResponse None ?env (inputText (screen ?m))) =
      Inr (JStr (js ''The request took too long to complete. Please try again in a moment.''))"
    by (simp add: fetchAIResponse_def AI_API_nonempty fetchWithTimeout_def catchReply_def)
  have quiet: "list_all ignoredInFlight ?acts" by simp
  have before: "map isUser (messages (screen ?m)) = [False]"
    by (simp add: mounted_def initialChat_def greeting_def)
  from C1_send_appends_amended [OF input idle reply quiet] before input idle quiet
  show ?thesis by simp
qed

text \<open>
  C1 as it is stated fails. The transcript holds the greeting alone; \<open>hi\<close> is sent, the
  clearing of the chat is confirmed while the request is in flight, and the request
  settles: the transcript then holds two records, the greeting and the reply, so it has
  grown by 1, and the user's record is not in it.
\<close>

theorem C1_clear_in_flight_counterexample:
  "length (messages (screen (chatActs None [Typed (js ''hi'')] (mounted None 1730000000000)))) = 1 \<and>
   map isUser (messages (screen (chatActs None
     [Typed (js ''hi''),
      SendPressed \<lparr>userIdNow = 1730000000100, userDate = 1730000000100,
        requestDate = 1730000000101,
        fetchResult = Inl \<lparr>name = js ''AbortError'', message = Some (js ''Aborted'')\<rparr>,
        nullReadMessage = [], replyIdNow = 1730000030100, replyDate = 1730000030100\<rparr>,
      ClearConfirmed 1730000010000,
      SendSettled]
     (mounted None 1730000000000)))) = [False, False]"
  by (simp add: chatActs_def mounted_def initialChat_def greeting_def sendBegin_def sendSettle_def
      confirmClearChat_def closeSettings_def fetchAIResponse_def AI_API_nonempty
      fetchWithTimeout_def trim_def isWhiteSpace_def js_def)

text \<open>
  C2, as the code has it. On a successful response whose body parses to a value other
  than \<open>null\<close>, the reply is the first recognised shape in the order \<open>reply\<close>,
  \<open>message\<close>, \<open>output\<close>, \<open>choices[0].text\<close>, \<open>choices[0].message\<close> (of which
  \<open>content\<close> is returned), \<open>response\<close>, then the body itself when it is a string;
  a shape is recognised when its value counts as true. When none is recognised the reply
  is the fixed sentence "I received your message but couldn't process the response
  format.", not the input.
\<close>

theorem C2_reply_priority_amended:
  assumes "fetchResult env = Inr response" and "ok response"
    and "json_result response = Inr data" and "data \<noteq> JNull" and "data \<noteq> JUndefined"
  shows "snd (fetchAIResponse usr env prompt) = Inr (firstRecognized data)"
  using assms
  by (simp add: fetchAIResponse_def AI_API_nonempty Let_def fetchWithTimeout_def
      extractReply_firstRecognized)

theorem C2_reply_priority_amended_witness:
  "snd (fetchAIResponse None
     \<lparr>userIdNow = 1730000000000, userDate = 1730000000000, requestDate = 1730000000001,
      fetchResult = Inr \<lparr>ok = True, status = 200, text_result = Inr [],
        json_result = Inr (JObj [(js ''response'', JStr (js ''later'')),
                                 (js ''message'', JStr (js ''hello''))])\<rparr>,
      nullReadMessage = js ''Cannot read property 'reply' of null'',
      replyIdNow = 1730000000400, replyDate = 1730000000400\<rparr> (js ''hi''))
   = Inr (JStr (js ''hello''))"
  using C2_reply_priority_amended [of
     "\<lparr>userIdNow = 1730000000000, userDate = 1730000000000, requestDate = 1730000000001,
      fetchResult = Inr \<lparr>ok = True, status = 200, text_result = Inr [],
        json_result = Inr (JObj [(js ''response'', JStr (js ''later'')),
                                 (js ''message'', JStr (js ''hello''))])\<rparr>,
      nullReadMessage = js ''Cannot read property 'reply' of null'',
      replyIdNow = 1730000000400, replyDate = 1730000000400\<rparr>"
     "\<lparr>ok = True, status = 200, text_result = Inr [],
        json_result = Inr (JObj [(js ''response'', JStr (js ''later'')),
                                 (js ''message'', JStr (js ''hello''))])\<rparr>"
     "JObj [(js ''response'', JStr (js ''later'')), (js ''message'', JStr (js ''hello''))]"
     None "js ''hi''"]
  by (simp add: firstRecognized_def replyProbes_def js_def)

text \<open>
  C2 as it is stated fails: to the prompt \<open>hi\<close>, answered with status 200 and the
  body \<open>{}\<close>, the relay replies with the fixed sentence, which is not the prompt.
\<close>

theorem C2_fallback_is_not_echo_counterexample:
  "snd (fetchAIResponse None
     \<lparr>userIdNow = 1730000000000, userDate = 1730000000000, requestDate = 1730000000001,
      fetchResult = Inr \<lparr>ok = True, status = 200, text_result = Inr [],
        json_result = Inr (JObj [])\<rparr>,
      nullReadMessage = js ''Cannot read property 'reply' of null'',
      replyIdNow = 1730000000400, replyDate = 1730000000400\<rparr> (js ''hi''))
   = Inr (JStr (js ''I received your message but couldn't process the response format.'')) \<and>
   JStr (js ''I received your message but couldn't process the response format.'') \<noteq> JStr (js ''hi'')"
  by (simp add: fetchAIResponse_def AI_API_nonempty fetchWithTimeout_def extractReply_def
      choicesFirst_def js_def)

text \<open>
  C5. A response that is not ok and whose body text can be read gives, for status 401,
  429 and any status from 500 on, the canned reply of that status, letter for letter; a
  rejected \<open>fetch\<close> whose error is named \<open>AbortError\<close>, or whose message contains
  \<open>timeout\<close> or \<open>abort\<close>, gives the canned timeout reply.
\<close>

theorem C5_failure_replies:
  "(fetchResult env = Inr response \<and> \<not> ok response \<and> text_result response = Inr errorText \<longrightarrow>
      (status response = 401 \<longrightarrow> snd (fetchAIResponse usr env prompt) =
         Inr (JStr (js ''I'm having trouble authenticating with the AI service. Please check your API configuration.''))) \<and>
      (status response = 429 \<longrightarrow> snd (fetchAIResponse usr env prompt) =
         Inr (JStr (js ''I'm receiving too many requests right now. Please wait a moment and try again.''))) \<and>
      (status response \<ge> 500 \<longrightarrow> snd (fetchAIResponse usr env prompt) =
         Inr (JStr (js ''The AI service is currently experiencing issues. Please try again later.'')))) \<and>
   (fetchResult env = Inl err \<and>
      (name err = js ''AbortError'' \<or> messageIncludes err (js ''timeout'') \<or>
       messageIncludes err (js ''abort'')) \<longrightarrow>
      snd (fetchAIResponse usr env prompt) =
         Inr (JStr (js ''The request took too long to complete. Please try again in a moment.'')))"
  by (simp add: fetchAIResponse_def AI_API_nonempty Let_def fetchWithTimeout_def catchReply_def)

theorem C5_failure_replies_witness:
  "snd (fetchAIResponse None
     \<lparr>userIdNow = 1730000000000, userDate = 1730000000000, requestDate = 1730000000001,
      fetchResult = Inr \<lparr>ok = False, status = 429, text_result = Inr (js ''slow down''),
        json_result = Inl \<lparr>name = js ''SyntaxError'', message = Some (js ''Unexpected token'')\<rparr>\<rparr>,
      nullReadMessage = js ''Cannot read property 'reply' of null'',
      replyIdNow = 1730000000400, replyDate = 1730000000400\<rparr> (js ''hi''))
     = Inr (JStr (js ''I'm receiving too many requests right now. Please wait a moment and try again.'')) \<and>
   messageIncludes \<lparr>name = js ''Error'', message = Some (js ''The operation timeout expired'')\<rparr>
     (js ''timeout'') \<and>
   snd (fetchAIResponse None
     \<lparr>userIdNow = 1730000000000, userDate = 1730000000000, requestDate = 1730000000001,
      fetchResult = Inl \<lparr>name = js ''Error'', message = Some (js ''The operation timeout expired'')\<rparr>,
      nullReadMessage = js ''Cannot read property 'reply' of null'',
      replyIdNow = 1730000030000, replyDate = 1730000030000\<rparr> (js ''hi''))
     = Inr (JStr (js ''The request took too long to complete. Please try again in a moment.''))"
  using C5_failure_replies
    [where env = "\<lparr>userIdNow = 1730000000000, userDate = 1730000000000,
         requestDate = 1730000000001,
         fetchResult = Inr \<lparr>ok = False, status = 429, text_result = Inr (js ''slow down''),
           json_result = Inl \<lparr>name = js ''SyntaxError'', message = Some (js ''Unexpected token'')\<rparr>\<rparr>,
         nullReadMessage = js ''Cannot read property 'reply' of null'',
         replyIdNow = 1730000000400, replyDate = 1730000000400\<rparr>"
       and response = "\<lparr>ok = False, status = 429, text_result = Inr (js ''slow down''),
           json_result = Inl \<lparr>name = js ''SyntaxError'', message = Some (js ''Unexpected token'')\<rparr>\<rparr>"
       and errorText = "js ''slow down''" and usr = None and prompt = "js ''hi''"]
    C5_failure_replies
    [where env = "\<lparr>userIdNow = 1730000000000, userDate = 1730000000000,
         requestDate = 1730000000001,
         fetchResult = Inl \<lparr>name = js ''Error'', message = Some (js ''The operation timeout expired'')\<rparr>,
         nullReadMessage = js ''Cannot read property 'reply' of null'',
         replyIdNow = 1730000030000, replyDate = 1730000030000\<rparr>"
       and err = "\<lparr>name = js ''Error'', message = Some (js ''The operation timeout expired'')\<rparr>"
       and usr = None and prompt = "js ''hi''"]
  by (simp add: messageIncludes_def js_def)

text \<open>
  C10. \<open>AI_API\<close> is the literal \<open>process.env.AI_API\<close>, a string that is not empty;
  so \<open>fetchAIResponse\<close> never takes the branch of the missing configuration, and every
  call of it, hence every send that passes the guard, issues exactly one request, to
  that literal as its address.
\<close>

theorem C10_endpoint_is_literal:
  "AI_API = js ''process.env.AI_API'' \<and> AI_API \<noteq> [] \<and>
   map url (fst (fetchAIResponse usr env prompt)) = [js ''process.env.AI_API''] \<and>
   (trim (inputText s) \<noteq> [] \<and> \<not> isLoading s \<longrightarrow>
      map url (snd (handleSendMessage usr env s)) = [js ''process.env.AI_API''])"
  by (simp add: AI_API_nonempty fetchAIResponse_def handleSendMessage_def Let_def)
     (simp add: AI_API_def)

theorem C10_endpoint_is_literal_witness:
  "trim (inputText ((initialChat None 1730000000000)\<lparr>inputText := js ''hi''\<rparr>)) \<noteq> [] \<and>
   \<not> isLoading ((initialChat None 1730000000000)\<lparr>inputText := js ''hi''\<rparr>) \<and>
   map url (snd (handleSendMessage None
     \<lparr>userIdNow = 1730000000100, userDate = 1730000000100, requestDate = 1730000000101,
      fetchResult = Inl \<lparr>name = js ''TypeError'', message = Some (js ''Network request failed'')\<rparr>,
      nullReadMessage = js ''Cannot read property 'reply' of null'',
      replyIdNow = 1730000000200, replyDate = 1730000000200\<rparr>
     ((initialChat None 1730000000000)\<lparr>inputText := js ''hi''\<rparr>))) = [js ''process.env.AI_API'']"
  using C10_endpoint_is_literal
    [where s = "(initialChat None 1730000000000)\<lparr>inputText := js ''hi''\<rparr>"
       and usr = None
       and env = "\<lparr>userIdNow = 1730000000100, userDate = 1730000000100,
         requestDate = 1730000000101,
         fetchResult = Inl \<lparr>name = js ''TypeError'', message = Some (js ''Network request failed'')\<rparr>,
         nullReadMessage = js ''Cannot read property 'reply' of null'',
         replyIdNow = 1730000000200, replyDate = 1730000000200\<rparr>"]
  by (simp add: initialChat_def trim_def isWhiteSpace_def js_def)

text \<open>
  C6. Confirming the clear-chat action leaves exactly one record in the transcript,
  whatever it held before: the greeting, written by the assistant.
\<close>

theorem C6_clear_resets_to_greeting:
  "messages (confirmClearChat user now s) = [greeting user now] \<and>
   length (messages (confirmClearChat user now s)) = 1 \<and>
   \<not> isUser (greeting user now) \<and>
   id_msg (greeting user now) = js ''1'' \<and>
   text_msg (greeting user now) = JStr (greetingText user)"
  by (simp add: confirmClearChat_def closeSettings_def greeting_def)

subsection \<open>Identifiers of the transcript\<close>

lemma idsBelow_mono: "idsBelow a s \<Longrightarrow> a \<le> b \<Longrightarrow> idsBelow b s"
  unfolding idsBelow_def by (meson order_trans)

lemma idsBelow_clear: "1 \<le> latest \<Longrightarrow> idsBelow latest (confirmClearChat usr now s)"
  unfolding idsBelow_def
  by (auto simp: confirmClearChat_def closeSettings_def greeting_def toString_1)

lemma idsBelow_send:
  assumes "idsBelow latest s" and "latest < userIdNow env" and "userIdNow env \<le> replyIdNow env"
  shows "idsBelow (replyIdNow env + 1) (fst (handleSendMessage usr env s))"
proof (cases "trim (inputText s) = [] \<or> isLoading s")
  case True
  with assms show ?thesis
    by (auto simp: handleSendMessage_def intro: idsBelow_mono)
next
  case False
  have old: "id_msg m \<noteq> toString k" if "m \<in> set (messages s)" "latest < k" for m k
  proof -
    from assms(1) that(1) obtain n where "n \<le> latest" "id_msg m = toString n"
      unfolding idsBelow_def by blast
    with that(2) show ?thesis using toString_inj [of n k] by auto
  qed
  have new: "toString (userIdNow env) \<noteq> toString (replyIdNow env + 1)"
    using assms(3) toString_inj [of "userIdNow env" "replyIdNow env + 1"] by auto
  have msgs: "map id_msg (messages (fst (handleSendMessage usr env s))) =
      map id_msg (messages s) @ [toString (userIdNow env), toString (replyIdNow env + 1)]"
    using False by (simp add: handleSendMessage_ids)
  have ids: "id_msg ` set (messages (fst (handleSendMessage usr env s))) =
      id_msg ` set (messages s) \<union> {toString (userIdNow env), toString (replyIdNow env + 1)}"
    using arg_cong [OF msgs, of set] by auto
  have u: "toString (userIdNow env) \<notin> id_msg ` set (messages s)"
    using old [OF _ assms(2)] by force
  have r: "toString (replyIdNow env + 1) \<notin> id_msg ` set (messages s)"
    using old [of _ "replyIdNow env + 1"] assms(2,3) by force
  have d: "distinct (map id_msg (messages (fst (handleSendMessage usr env s))))"
    unfolding msgs using assms(1) u r new
    by (simp add: idsBelow_def)
  have b: "\<exists>n. n \<le> replyIdNow env + 1 \<and> id_msg m = toString n"
    if "m \<in> set (messages (fst (handleSendMessage usr env s)))" for m
  proof -
    from that have "id_msg m \<in> id_msg ` set (messages s) \<union>
        {toString (userIdNow env), toString (replyIdNow env + 1)}"
      using ids by blast
    then consider m' where "m' \<in> set (messages s)" "id_msg m = id_msg m'"
      | "id_msg m = toString (userIdNow env)" | "id_msg m = toString (replyIdNow env + 1)"
      by auto
    then show ?thesis
    proof cases
      case 1
      with assms(1) obtain n where "n \<le> latest" "id_msg m = toString n"
        unfolding idsBelow_def by metis
      with assms(2,3) show ?thesis by (intro exI [of _ n]) simp
    next
      case 2 with assms(3) show ?thesis by (intro exI [of _ "userIdNow env"]) simp
    next
      case 3 then show ?thesis by (intro exI [of _ "replyIdNow env + 1"]) simp
    qed
  qed
  from assms have "1 \<le> replyIdNow env + 1" by (simp add: idsBelow_def)
  with d b show ?thesis unfolding idsBelow_def by blast
qed

lemma idsBelow_run:
  "idsBelow latest s \<Longrightarrow> idClockAdvances latest evs \<Longrightarrow>
   distinct (map id_msg (messages (chatRun usr evs s)))"
proof (induction evs arbitrary: latest s)
  case Nil
  then show ?case by (simp add: chatRun_def idsBelow_def)
next
  case (Cons ev evs)
  show ?case
  proof (cases ev)
    case (ChangeText t)
    have "idsBelow latest (chatStep usr s ev)"
      using Cons.prems(1) ChangeText by (simp add: idsBelow_def)
    with Cons.IH [of latest "chatStep usr s ev"] Cons.prems(2) ChangeText
    show ?thesis by (simp add: chatRun_def)
  next
    case (PressSend env)
    with Cons.prems have "idsBelow (replyIdNow env + 1) (chatStep usr s ev)"
      by (simp add: idsBelow_send)
    with Cons.IH [of "replyIdNow env + 1" "chatStep usr s ev"] Cons.prems(2) PressSend
    show ?thesis by (simp add: chatRun_def)
  next
    case (ConfirmClear now)
    with Cons.prems(1) have "idsBelow latest (chatStep usr s ev)"
      using idsBelow_clear [of latest usr now s] by (simp add: idsBelow_def)
    with Cons.IH [of latest "chatStep usr s ev"] Cons.prems(2) ConfirmClear
    show ?thesis by (simp add: chatRun_def)
  qed
qed

text \<open>
  C7, as the code has it. After any sequence of input changes, sends and clears from
  the mounted screen, no two records of the transcript share an identifier, provided the
  clock readings that become identifiers keep ahead of the identifiers given so far:
  every send reads a clock value above 1 and above the identifier of the previous reply,
  and a reply is stamped no earlier than its send.
\<close>

theorem C7_ids_unique_amended:
  "idClockAdvances 1 evs \<Longrightarrow>
   distinct (map id_msg (messages (chatRun usr evs (initialChat usr now))))"
proof -
  have "idsBelow 1 (initialChat usr now)"
    by (auto simp: idsBelow_def initialChat_def greeting_def toString_1)
  then show "idClockAdvances 1 evs \<Longrightarrow> ?thesis"
    by (rule idsBelow_run)
qed

theorem C7_ids_unique_amended_witness:
  "idClockAdvances 1
     [ChangeText (js ''a''),
      PressSend \<lparr>userIdNow = 1730000000100, userDate = 1730000000100,
        requestDate = 1730000000101,
        fetchResult = Inl \<lparr>name = js ''AbortError'', message = Some (js ''Aborted'')\<rparr>,
        nullReadMessage = [], replyIdNow = 1730000000350, replyDate = 1730000000350\<rparr>,
      ConfirmClear 1730000005000,
      ChangeText (js ''b''),
      PressSend \<lparr>userIdNow = 1730000009000, userDate = 1730000009000,
        requestDate = 1730000009001,
        fetchResult = Inl \<lparr>name = js ''AbortError'', message = Some (js ''Aborted'')\<rparr>,
        nullReadMessage = [], replyIdNow = 1730000009600, replyDate = 1730000009600\<rparr>] \<and>
   distinct (map id_msg (messages (chatRun None
     [ChangeText (js ''a''),
      PressSend \<lparr>userIdNow = 1730000000100, userDate = 1730000000100,
        requestDate = 1730000000101,
        fetchResult = Inl \<lparr>name = js ''AbortError'', message = Some (js ''Aborted'')\<rparr>,
        nullReadMessage = [], replyIdNow = 1730000000350, replyDate = 1730000000350\<rparr>,
      ConfirmClear 1730000005000,
      ChangeText (js ''b''),
      PressSend \<lparr>userIdNow = 1730000009000, userDate = 1730000009000,
        requestDate = 1730000009001,
        fetchResult = Inl \<lparr>name = js ''AbortError'', message = Some (js ''Aborted'')\<rparr>,
        nullReadMessage = [], replyIdNow = 1730000009600, replyDate = 1730000009600\<rparr>]
     (initialChat None 1730000000000))))"
  using C7_ids_unique_amended
    [where usr = None and now = 1730000000000
       and evs = "[ChangeText (js ''a''),
      PressSend \<lparr>userIdNow = 1730000000100, userDate = 1730000000100,
        requestDate = 1730000000101,
        fetchResult = Inl \<lparr>name = js ''AbortError'', message = Some (js ''Aborted'')\<rparr>,
        nullReadMessage = [], replyIdNow = 1730000000350, replyDate = 1730000000350\<rparr>,
      ConfirmClear 1730000005000,
      ChangeText (js ''b''),
      PressSend \<lparr>userIdNow = 1730000009000, userDate = 1730000009000,
        requestDate = 1730000009001,
        fetchResult = Inl \<lparr>name = js ''AbortError'', message = Some (js ''Aborted'')\<rparr>,
        nullReadMessage = [], replyIdNow = 1730000009600, replyDate = 1730000009600\<rparr>]"]
  by simp

text \<open>
  C7 as it is stated fails. A first send is answered when the clock reads
  1730000000350, so the reply gets the identifier 1730000000351; a second send made when
  the clock reads 1730000000351 gives its user record the same identifier.
\<close>

theorem C7_ids_collide_counterexample:
  "map id_msg (messages (chatRun None
     [ChangeText (js ''a''),
      PressSend \<lparr>userIdNow = 1730000000100, userDate = 1730000000100,
        requestDate = 1730000000101,
        fetchResult = Inl \<lparr>name = js ''AbortError'', message = Some (js ''Aborted'')\<rparr>,
        nullReadMessage = [], replyIdNow = 1730000000350, replyDate = 1730000000350\<rparr>,
      ChangeText (js ''b''),
      PressSend \<lparr>userIdNow = 1730000000351, userDate = 1730000000351,
        requestDate = 1730000000352,
        fetchResult = Inl \<lparr>name = js ''AbortError'', message = Some (js ''Aborted'')\<rparr>,
        nullReadMessage = [], replyIdNow = 1730000000600, replyDate = 1730000000600\<rparr>]
     (initialChat None 1730000000000))) =
   [js ''1'', js ''1730000000100'', js ''1730000000351'', js ''1730000000351'',
    js ''1730000000601''] \<and>
   \<not> distinct (map id_msg (messages (chatRun None
     [ChangeText (js ''a''),
      PressSend \<lparr>userIdNow = 1730000000100, userDate = 1730000000100,
        requestDate = 1730000000101,
        fetchResult = Inl \<lparr>name = js ''AbortError'', message = Some (js ''Aborted'')\<rparr>,
        nullReadMessage = [], replyIdNow = 1730000000350, replyDate = 1730000000350\<rparr>,
      ChangeText (js ''b''),
      PressSend \<lparr>userIdNow = 1730000000351, userDate = 1730000000351,
        requestDate = 1730000000352,
        fetchResult = Inl \<lparr>name = js ''AbortError'', message = Some (js ''Aborted'')\<rparr>,
        nullReadMessage = [], replyIdNow = 1730000000600, replyDate = 1730000000600\<rparr>]
     (initialChat None 1730000000000))))"
proof -
  have ids: "map id_msg (messages (chatRun None
     [ChangeText (js ''a''),
      PressSend \<lparr>userIdNow = 1730000000100, userDate = 1730000000100,
        requestDate = 1730000000101,
        fetchResult = Inl \<lparr>name = js ''AbortError'', message = Some (js ''Aborted'')\<rparr>,
        nullReadMessage = [], replyIdNow = 1730000000350, replyDate = 1730000000350\<rparr>,
      ChangeText (js ''b''),
      PressSend \<lparr>userIdNow = 1730000000351, userDate = 1730000000351,
        requestDate = 1730000000352,
        fetchResult = Inl \<lparr>name = js ''AbortError'', message = Some (js ''Aborted'')\<rparr>,
        nullReadMessage = [], replyIdNow = 1730000000600, replyDate = 1730000000600\<rparr>]
     (initialChat None 1730000000000))) =
   [js ''1'', js ''1730000000100'', js ''1730000000351'', js ''1730000000351'',
    js ''1730000000601'']"
    by (simp add: chatRun_def initialChat_def greeting_def handleSendMessage_def
        fetchAIResponse_def AI_API_nonempty Let_def fetchWithTimeout_def sendBegin_def
        sendSettle_def trim_def isWhiteSpace_def toString_def natToString.simps js_def)
  show ?thesis unfolding ids by simp
qed

text \<open>
  The same holds on the screen where other events come in while a send is in flight,
  clearings among them.
\<close>

lemma idsInFlight_mono:
  assumes "idsInFlight a m" and "a \<le> b"
  shows "idsInFlight b m"
proof (cases "pending m")
  case None
  from assms(1) None have inv: "1 \<le> a" "distinct (map id_msg (messages (screen m)))"
    "\<forall>msg \<in> set (messages (screen m)). \<exists>n. n \<le> a \<and> id_msg msg = toString n"
    by (simp_all add: idsInFlight_def)
  have "\<exists>n. n \<le> b \<and> id_msg msg = toString n" if "msg \<in> set (messages (screen m))" for msg
  proof -
    from inv(3) that obtain n where "n \<le> a" "id_msg msg = toString n" by blast
    with assms(2) show ?thesis by (intro exI [of _ n]) simp
  qed
  with inv(1,2) assms(2) None show ?thesis
    by (simp add: idsInFlight_def)
next
  case (Some p)
  obtain env result where "p = (env, result)" by (cases p)
  with Some assms show ?thesis
    by (simp add: idsInFlight_def)
qed

lemma idsInFlight_step:
  assumes "idsInFlight latest m" and "actionClockAdvances latest (a # acts)"
  shows "\<exists>latest'. idsInFlight latest' (chatAct usr m a) \<and> actionClockAdvances latest' acts"
proof (cases a)
  case (Typed t)
  with assms show ?thesis
    by (intro exI [of _ latest]) (auto simp: idsInFlight_def split: option.splits)
next
  case (ClearConfirmed now)
  have "idsInFlight latest (chatAct usr m a)"
    using assms(1) ClearConfirmed
    by (auto simp: idsInFlight_def confirmClearChat_def closeSettings_def greeting_def
        toString_1 split: option.splits)
  with assms(2) ClearConfirmed show ?thesis by (intro exI [of _ latest]) simp
next
  case SendSettled
  show ?thesis
  proof (cases "pending m")
    case None
    with assms SendSettled show ?thesis by (intro exI [of _ latest]) simp
  next
    case (Some p)
    obtain env result where p: "p = (env, result)" by (cases p)
    from assms(1) Some p have inv: "1 \<le> latest" "distinct (map id_msg (messages (screen m)))"
      "replyIdNow env + 1 \<le> latest"
      "\<forall>msg \<in> set (messages (screen m)). \<exists>n. n \<le> replyIdNow env \<and> id_msg msg = toString n"
      by (simp_all add: idsInFlight_def)
    have fresh: "toString (replyIdNow env + 1) \<notin> id_msg ` set (messages (screen m))"
    proof
      assume "toString (replyIdNow env + 1) \<in> id_msg ` set (messages (screen m))"
      then obtain msg where "msg \<in> set (messages (screen m))"
        "id_msg msg = toString (replyIdNow env + 1)" by auto
      with inv(4) obtain n where "n \<le> replyIdNow env" "toString n = toString (replyIdNow env + 1)"
        by metis
      then show False using toString_inj [of n "replyIdNow env + 1"] by simp
    qed
    have ids: "map id_msg (messages (screen (chatAct usr m a))) =
        map id_msg (messages (screen m)) @ [toString (replyIdNow env + 1)]"
      using SendSettled Some p by (cases result) (simp_all add: sendSettle_def)
    have pend: "pending (chatAct usr m a) = None"
      using SendSettled Some p by simp
    have bound: "\<exists>n. n \<le> latest \<and> id_msg msg = toString n"
      if "msg \<in> set (messages (screen (chatAct usr m a)))" for msg
    proof -
      from that have "id_msg msg \<in> set (map id_msg (messages (screen (chatAct usr m a))))"
        by simp
      then have "id_msg msg \<in> id_msg ` set (messages (screen m)) \<or>
          id_msg msg = toString (replyIdNow env + 1)"
        unfolding ids by auto
      then show ?thesis
      proof
        assume "id_msg msg \<in> id_msg ` set (messages (screen m))"
        then obtain old where "old \<in> set (messages (screen m))" "id_msg msg = id_msg old"
          by auto
        with inv(4) obtain n where "n \<le> replyIdNow env" "id_msg msg = toString n" by metis
        with inv(3) show ?thesis by (intro exI [of _ n]) simp
      next
        assume "id_msg msg = toString (replyIdNow env + 1)"
        with inv(3) show ?thesis by (intro exI [of _ "replyIdNow env + 1"]) simp
      qed
    qed
    have "idsInFlight latest (chatAct usr m a)"
      unfolding idsInFlight_def pend using inv(1,2) fresh bound
      by (simp add: ids)
    with assms(2) SendSettled show ?thesis by (intro exI [of _ latest]) simp
  qed
next
  case (SendPressed env)
  from assms(2) SendPressed have clock: "latest < userIdNow env" "userIdNow env \<le> replyIdNow env"
    "actionClockAdvances (replyIdNow env + 1) acts" by simp_all
  show ?thesis
  proof (cases "trim (inputText (screen m)) = [] \<or> isLoading (screen m)")
    case True
    then have same: "chatAct usr m a = m" using SendPressed by simp
    have "idsInFlight (replyIdNow env + 1) m"
      using idsInFlight_mono [OF assms(1), of "replyIdNow env + 1"] clock(1,2) by simp
    with same clock(3) show ?thesis by (intro exI [of _ "replyIdNow env + 1"]) simp
  next
    case False
    with assms(1) have nopending: "pending m = None"
      by (auto simp: idsInFlight_def split: option.splits)
    with assms(1) have inv: "1 \<le> latest" "distinct (map id_msg (messages (screen m)))"
      "\<forall>msg \<in> set (messages (screen m)). \<exists>n. n \<le> latest \<and> id_msg msg = toString n"
      by (simp_all add: idsInFlight_def)
    have fresh: "toString (userIdNow env) \<notin> id_msg ` set (messages (screen m))"
    proof
      assume "toString (userIdNow env) \<in> id_msg ` set (messages (screen m))"
      then obtain msg where "msg \<in> set (messages (screen m))"
        "id_msg msg = toString (userIdNow env)" by auto
      with inv(3) obtain n where "n \<le> latest" "toString n = toString (userIdNow env)"
        by metis
      then show False using toString_inj [of n "userIdNow env"] clock(1) by simp
    qed
    have st: "chatAct usr m a = \<lparr>screen = sendBegin env (screen m),
        pending = Some (env, snd (fetchAIResponse usr env (inputText (screen m))))\<rparr>"
      using False SendPressed by simp
    have ids: "map id_msg (messages (sendBegin env (screen m))) =
        map id_msg (messages (screen m)) @ [toString (userIdNow env)]"
      by (simp add: sendBegin_def)
    have bound: "\<exists>n. n \<le> replyIdNow env \<and> id_msg msg = toString n"
      if "msg \<in> set (messages (sendBegin env (screen m)))" for msg
    proof -
      from that have "id_msg msg \<in> set (map id_msg (messages (sendBegin env (screen m))))"
        by simp
      then have "id_msg msg \<in> id_msg ` set (messages (screen m)) \<or>
          id_msg msg = toString (userIdNow env)"
        unfolding ids by auto
      then show ?thesis
      proof
        assume "id_msg msg \<in> id_msg ` set (messages (screen m))"
        then obtain old where "old \<in> set (messages (screen m))" "id_msg msg = id_msg old"
          by auto
        with inv(3) obtain n where "n \<le> latest" "id_msg msg = toString n" by metis
        with clock(1,2) show ?thesis by (intro exI [of _ n]) simp
      next
        assume "id_msg msg = toString (userIdNow env)"
        with clock(2) show ?thesis by (intro exI [of _ "userIdNow env"]) simp
      qed
    qed
    have "idsInFlight (replyIdNow env + 1) (chatAct usr m a)"
      unfolding st idsInFlight_def using inv(1,2) clock(1,2) fresh bound
      by (simp add: ids) (simp add: sendBegin_def)
    with clock(3) show ?thesis by (intro exI [of _ "replyIdNow env + 1"]) simp
  qed
qed

lemma idsInFlight_run:
  "idsInFlight latest m \<Longrightarrow> actionClockAdvances latest acts \<Longrightarrow>
   distinct (map id_msg (messages (screen (chatActs usr acts m))))"
proof (induction acts arbitrary: latest m)
  case Nil
  then show ?case by (simp add: chatActs_def idsInFlight_def)
next
  case (Cons a acts)
  from idsInFlight_step [OF Cons.prems] obtain latest' where
    "idsInFlight latest' (chatAct usr m a)" "actionClockAdvances latest' acts" by blast
  from Cons.IH [OF this] show ?case by (simp add: chatActs_Cons)
qed

lemma ids_unique_with_clears_in_flight:
  "actionClockAdvances 1 acts \<Longrightarrow>
   distinct (map id_msg (messages (screen (chatActs usr acts (mounted usr now)))))"
proof -
  have "idsInFlight 1 (mounted usr now)"
    by (auto simp: idsInFlight_def mounted_def initialChat_def greeting_def toString_1)
  then show "actionClockAdvances 1 acts \<Longrightarrow> ?thesis"
    by (rule idsInFlight_run)
qed

subsection \<open>The verification screen\<close>

lemma handleVerify_code: "code (fst (handleVerify hook env s)) = code s"
  by (simp add: handleVerify_def verifyFailed_def Let_def split: option.split sum.split)

lemma handleVerify_cooldown: "resendCooldown (fst (handleVerify hook env s)) = resendCooldown s"
  by (simp add: handleVerify_def verifyFailed_def Let_def split: option.split sum.split)

lemma handleResendCode_code: "code (fst (handleResendCode hook r s)) = code s"
  by (simp add: handleResendCode_def split: option.split sum.split)

lemma onChangeText_sanitized: "sanitized (onChangeText t s)"
proof -
  have "set (take 6 (filter isDigit t)) \<subseteq> set (filter isDigit t)"
    by (rule set_take_subset)
  then show ?thesis
    by (auto simp: sanitized_def onChangeText_def list_all_iff)
qed

lemma verifyStep_code:
  "code (fst (verifyStep hook s ev)) =
     (case ev of TypeCode t \<Rightarrow> if isLoading_v s then code s else code (onChangeText t s)
      | _ \<Rightarrow> code s)"
  by (cases ev) (simp_all add: handleVerify_code handleResendCode_code tick_def)

text \<open>The code field only ever holds at most six digits.\<close>

lemma verifyStep_sanitized: "sanitized s \<Longrightarrow> sanitized (fst (verifyStep hook s ev))"
  using onChangeText_sanitized [of _ s]
  by (cases ev) (simp_all add: sanitized_def verifyStep_code del: verifyStep.simps)

lemma verifyRun_sanitized: "sanitized s \<Longrightarrow> sanitized (verifyRun hook evs s)"
  by (induction evs arbitrary: s) (simp_all add: verifyStep_sanitized)

lemma initialVerify_sanitized: "sanitized (initialVerify pe hook)"
  by (simp add: sanitized_def initialVerify_def)

text \<open>
  The guards of \<open>handleVerify\<close> by themselves: run on a code of a length other than
  6, it alerts and returns. (On the screen the button is disabled in that state, so the
  handler does not run there.)
\<close>

lemma handleVerify_rejects_short:
  assumes "length (code s) \<noteq> 6"
  shows "\<exists>msg. handleVerify hook env s = (s, [Alert (js ''Error'') msg []])"
  using assms by (simp add: handleVerify_def split: option.split)

lemma dropWhile_none: "list_all (\<lambda>c. \<not> P c) xs \<Longrightarrow> dropWhile P xs = xs"
  by (cases xs) simp_all

lemma trim_unchanged: "list_all (\<lambda>c. \<not> isWhiteSpace c) xs \<Longrightarrow> trim xs = xs"
proof -
  assume clean: "list_all (\<lambda>c. \<not> isWhiteSpace c) xs"
  then have "list_all (\<lambda>c. \<not> isWhiteSpace c) (rev xs)" by (simp add: list_all_iff)
  with clean show ?thesis by (simp add: trim_def dropWhile_none)
qed

lemma digit_not_space: "isDigit c \<Longrightarrow> \<not> isWhiteSpace c"
  by (simp add: isDigit_def isWhiteSpace_def)

lemma trim_digits: "list_all isDigit xs \<Longrightarrow> trim xs = xs"
proof -
  assume "list_all isDigit xs"
  then have "list_all (\<lambda>c. \<not> isWhiteSpace c) xs"
    by (simp add: list_all_iff digit_not_space)
  then show ?thesis by (rule trim_unchanged)
qed

lemma handleVerify_calls:
  "AttemptEmailAddressVerification c \<in> set (snd (handleVerify hook env s)) \<Longrightarrow>
   c = trim (code s) \<and> length (code s) = 6"
  by (auto simp: handleVerify_def verifyFailed_def Let_def
      split: option.splits if_splits sum.splits)

lemma handleResendCode_calls:
  "AttemptEmailAddressVerification c \<notin> set (snd (handleResendCode hook r s))"
  by (auto simp: handleResendCode_def split: option.splits if_splits sum.splits)

text \<open>
  C3, as the code has it. Whatever has been typed into the code field and whatever else
  has happened on the screen, the field holds at most six digits; if the code held does
  not match \<open>^[0-9]{6}$\<close> the verify button is disabled, and pressing it calls nothing,
  shows nothing and changes nothing; and every \<open>attemptEmailAddressVerification\<close> the
  screen makes carries the code held, which matches \<open>^[0-9]{6}$\<close>.
\<close>

theorem C3_incomplete_code_is_not_submitted_amended:
  assumes "s = verifyRun hook evs (initialVerify params_email hook)"
  shows "length (code s) \<le> 6 \<and> list_all isDigit (code s) \<and>
         (\<not> sixDigits (code s) \<longrightarrow>
            verifyDisabled s \<and> verifyStep hook s (PressVerify env) = (s, [])) \<and>
         (\<forall>ev c. AttemptEmailAddressVerification c \<in> set (snd (verifyStep hook s ev)) \<longrightarrow>
            c = code s \<and> sixDigits c)"
proof -
  have clean: "sanitized s"
    using assms initialVerify_sanitized verifyRun_sanitized by simp
  then have len: "length (code s) \<le> 6" and digits: "list_all isDigit (code s)"
    by (simp_all add: sanitized_def)
  have off: "verifyDisabled s \<and> verifyStep hook s (PressVerify env) = (s, [])"
    if "\<not> sixDigits (code s)"
  proof -
    from that digits have "length (code s) \<noteq> 6" by (simp add: sixDigits_def)
    then show ?thesis by (simp add: verifyDisabled_def)
  qed
  have calls: "c = code s \<and> sixDigits c"
    if "AttemptEmailAddressVerification c \<in> set (snd (verifyStep hook s ev))" for ev c
  proof (cases ev)
    case (TypeCode t)
    with that show ?thesis by (simp split: if_splits)
  next
    case (PressVerify venv)
    with that have "AttemptEmailAddressVerification c \<in> set (snd (handleVerify hook venv s))"
      by (simp split: if_splits)
    from handleVerify_calls [OF this] digits show ?thesis
      by (simp add: trim_digits sixDigits_def)
  next
    case (PressResend r)
    with that handleResendCode_calls show ?thesis by (auto split: if_splits)
  next
    case Tick
    with that show ?thesis by simp
  qed
  from len digits off calls show ?thesis by blast
qed

theorem C3_incomplete_code_is_not_submitted_amended_witness:
  "\<not> sixDigits (code (verifyRun
      \<lparr>isLoaded = True, setActive = True,
       signUp = Some \<lparr>status_su = js ''missing_requirements'',
                      emailAddress = Some (js ''a@x.com''), createdSessionId = None\<rparr>\<rparr>
      [TypeCode (js ''12ab3'')]
      (initialVerify None
        \<lparr>isLoaded = True, setActive = True,
         signUp = Some \<lparr>status_su = js ''missing_requirements'',
                        emailAddress = Some (js ''a@x.com''), createdSessionId = None\<rparr>\<rparr>))) \<and>
   snd (verifyStep
      \<lparr>isLoaded = True, setActive = True,
       signUp = Some \<lparr>status_su = js ''missing_requirements'',
                      emailAddress = Some (js ''a@x.com''), createdSessionId = None\<rparr>\<rparr>
      (verifyRun
        \<lparr>isLoaded = True, setActive = True,
         signUp = Some \<lparr>status_su = js ''missing_requirements'',
                        emailAddress = Some (js ''a@x.com''), createdSessionId = None\<rparr>\<rparr>
        [TypeCode (js ''12ab3'')]
        (initialVerify None
          \<lparr>isLoaded = True, setActive = True,
           signUp = Some \<lparr>status_su = js ''missing_requirements'',
                          emailAddress = Some (js ''a@x.com''), createdSessionId = None\<rparr>\<rparr>))
      (PressVerify
        \<lparr>attemptResult = Inr \<lparr>status_su = js ''complete'', emailAddress = Some (js ''a@x.com''),
                               createdSessionId = Some (js ''sess_1'')\<rparr>,
         setActiveResult = Inr ()\<rparr>)) = []"
proof -
  let ?hook = "\<lparr>isLoaded = True, setActive = True,
       signUp = Some \<lparr>status_su = js ''missing_requirements'',
                      emailAddress = Some (js ''a@x.com''), createdSessionId = None\<rparr>\<rparr>"
  let ?s = "verifyRun ?hook [TypeCode (js ''12ab3'')] (initialVerify None ?hook)"
  let ?env = "\<lparr>attemptResult = Inr \<lparr>status_su = js ''complete'',
                               emailAddress = Some (js ''a@x.com''),
                               createdSessionId = Some (js ''sess_1'')\<rparr>,
         setActiveResult = Inr ()\<rparr>"
  have c: "code ?s = js ''123''"
    by (simp add: initialVerify_def onChangeText_def isDigit_def js_def)
  have short: "\<not> sixDigits (code ?s)"
    unfolding c by (simp add: sixDigits_def js_def)
  from C3_incomplete_code_is_not_submitted_amended
    [OF refl, of ?hook "[TypeCode (js ''12ab3'')]" None ?env] short
  have "verifyStep ?hook ?s (PressVerify ?env) = (?s, [])" by blast
  then have "snd (verifyStep ?hook ?s (PressVerify ?env)) = []" by (simp only: snd_conv)
  with short show ?thesis by (intro conjI)
qed

text \<open>
  C3 as it is stated fails. After \<open>12ab3\<close> has been typed the field holds \<open>123\<close>,
  which does not match; the verify action then makes no call, but it shows no message
  either: the button is disabled and the handler, the only place of the alerts, does not
  run.
\<close>

theorem C3_disabled_button_shows_nothing_counterexample:
  "code (verifyRun
      \<lparr>isLoaded = True, setActive = True,
       signUp = Some \<lparr>status_su = js ''missing_requirements'',
                      emailAddress = Some (js ''a@x.com''), createdSessionId = None\<rparr>\<rparr>
      [TypeCode (js ''12ab3'')]
      (initialVerify None
        \<lparr>isLoaded = True, setActive = True,
         signUp = Some \<lparr>status_su = js ''missing_requirements'',
                        emailAddress = Some (js ''a@x.com''), createdSessionId = None\<rparr>\<rparr>))
     = js ''123'' \<and>
   \<not> sixDigits (js ''123'') \<and>
   snd (verifyStep
      \<lparr>isLoaded = True, setActive = True,
       signUp = Some \<lparr>status_su = js ''missing_requirements'',
                      emailAddress = Some (js ''a@x.com''), createdSessionId = None\<rparr>\<rparr>
      (verifyRun
        \<lparr>isLoaded = True, setActive = True,
         signUp = Some \<lparr>status_su = js ''missing_requirements'',
                        emailAddress = Some (js ''a@x.com''), createdSessionId = None\<rparr>\<rparr>
        [TypeCode (js ''12ab3'')]
        (initialVerify None
          \<lparr>isLoaded = True, setActive = True,
           signUp = Some \<lparr>status_su = js ''missing_requirements'',
                          emailAddress = Some (js ''a@x.com''), createdSessionId = None\<rparr>\<rparr>))
      (PressVerify
        \<lparr>attemptResult = Inr \<lparr>status_su = js ''complete'', emailAddress = Some (js ''a@x.com''),
                               createdSessionId = Some (js ''sess_1'')\<rparr>,
         setActiveResult = Inr ()\<rparr>)) = []"
  by (simp add: initialVerify_def onChangeText_def isDigit_def sixDigits_def verifyDisabled_def
      js_def)

lemma verifyStep_nonneg:
  "0 \<le> resendCooldown s \<Longrightarrow> 0 \<le> resendCooldown (fst (verifyStep hook s ev))"
  by (cases ev)
     (simp_all add: onChangeText_def handleVerify_cooldown tick_def handleResendCode_def
        split: option.split sum.split)

lemma verifyRun_nonneg:
  "0 \<le> resendCooldown s \<Longrightarrow> 0 \<le> resendCooldown (verifyRun hook evs s)"
  by (induction evs arbitrary: s) (simp_all add: verifyStep_nonneg)

lemma tick_fields:
  "resendCooldown (tick t) = (if resendCooldown t > 0 then resendCooldown t - 1 else resendCooldown t)"
  "isResending (tick t) = isResending t"
  by (simp_all add: tick_def)

lemma ticks_count_down:
  "resendCooldown s = 30 \<Longrightarrow> k \<le> 30 \<Longrightarrow>
   resendCooldown ((tick ^^ k) s) = 30 - int k \<and> isResending ((tick ^^ k) s) = isResending s"
proof (induction k)
  case 0
  then show ?case by simp
next
  case (Suc k)
  then have IH: "resendCooldown ((tick ^^ k) s) = 30 - int k"
    "isResending ((tick ^^ k) s) = isResending s" by simp_all
  have step: "(tick ^^ Suc k) s = tick ((tick ^^ k) s)" by simp
  from Suc.prems(2) have "int k < 30" by simp
  with IH show ?case unfolding step tick_fields by simp
qed

text \<open>
  C4. While the counter is above 0 or a resend is in flight the resend button does
  nothing, and above 0 the handler itself returns at once; a resend that succeeds sets
  the counter to 30 and ends the flight; a tick of the timer takes exactly 1 from a
  counter above 0, and there is no tick at 0; on the screen the counter is never below 0;
  and \<open>k\<close> ticks after a successful resend the counter is \<open>30 - k\<close>, with the button
  disabled up to the 30th tick and enabled from it on.
\<close>

theorem C4_resend_cooldown:
  "(resendDisabled s \<longrightarrow> verifyStep hook s (PressResend r) = (s, [])) \<and>
   (resendCooldown s > 0 \<longrightarrow> handleResendCode hook r s = (s, [])) \<and>
   (\<not> resendDisabled s \<and> isLoaded hook \<and> signUp hook = Some su \<and>
    status_su su \<noteq> js ''complete'' \<longrightarrow>
      resendCooldown (fst (verifyStep hook s (PressResend (Inr ())))) = 30 \<and>
      \<not> isResending (fst (verifyStep hook s (PressResend (Inr ()))))) \<and>
   (resendCooldown s > 0 \<longrightarrow> resendCooldown (tick s) = resendCooldown s - 1) \<and>
   (resendCooldown s \<le> 0 \<longrightarrow> tick s = s) \<and>
   0 \<le> resendCooldown (verifyRun hook evs (initialVerify params_email hook)) \<and>
   (resendCooldown s = 30 \<and> \<not> isResending s \<and> k \<le> 30 \<longrightarrow>
      resendCooldown ((tick ^^ k) s) = 30 - int k \<and>
      (resendDisabled ((tick ^^ k) s) \<longleftrightarrow> k < 30))"
proof -
  have a: "resendDisabled s \<longrightarrow> verifyStep hook s (PressResend r) = (s, [])" by simp
  have b: "resendCooldown s > 0 \<longrightarrow> handleResendCode hook r s = (s, [])"
    by (simp add: handleResendCode_def split: option.split)
  have c: "\<not> resendDisabled s \<and> isLoaded hook \<and> signUp hook = Some su \<and>
    status_su su \<noteq> js ''complete'' \<longrightarrow>
      resendCooldown (fst (verifyStep hook s (PressResend (Inr ())))) = 30 \<and>
      \<not> isResending (fst (verifyStep hook s (PressResend (Inr ()))))"
    by (simp add: handleResendCode_def resendDisabled_def)
  have d: "(resendCooldown s > 0 \<longrightarrow> resendCooldown (tick s) = resendCooldown s - 1) \<and>
   (resendCooldown s \<le> 0 \<longrightarrow> tick s = s)"
    by (simp add: tick_def)
  have e: "0 \<le> resendCooldown (verifyRun hook evs (initialVerify params_email hook))"
    by (rule verifyRun_nonneg) (simp add: initialVerify_def)
  have f: "resendCooldown s = 30 \<and> \<not> isResending s \<and> k \<le> 30 \<longrightarrow>
      resendCooldown ((tick ^^ k) s) = 30 - int k \<and>
      (resendDisabled ((tick ^^ k) s) \<longleftrightarrow> k < 30)"
    using ticks_count_down [of s k] by (auto simp: resendDisabled_def)
  from a b c d e f show ?thesis by blast
qed

theorem C4_resend_cooldown_witness:
  "resendDisabled \<lparr>code = [], isLoading_v = False, isResending = False, resendCooldown = 30,
                    email_v = js ''a@x.com'', verificationStatus = Pending\<rparr> \<and>
   verifyStep
     \<lparr>isLoaded = True, setActive = True,
      signUp = Some \<lparr>status_su = js ''missing_requirements'',
                     emailAddress = Some (js ''a@x.com''), createdSessionId = None\<rparr>\<rparr>
     \<lparr>code = [], isLoading_v = False, isResending = False, resendCooldown = 30,
      email_v = js ''a@x.com'', verificationStatus = Pending\<rparr>
     (PressResend (Inr ())) =
     (\<lparr>code = [], isLoading_v = False, isResending = False, resendCooldown = 30,
       email_v = js ''a@x.com'', verificationStatus = Pending\<rparr>, []) \<and>
   resendCooldown (tick \<lparr>code = [], isLoading_v = False, isResending = False,
      resendCooldown = 30, email_v = js ''a@x.com'', verificationStatus = Pending\<rparr>) = 29 \<and>
   resendCooldown ((tick ^^ 30) \<lparr>code = [], isLoading_v = False, isResending = False,
      resendCooldown = 30, email_v = js ''a@x.com'', verificationStatus = Pending\<rparr>) = 0 \<and>
   \<not> resendDisabled ((tick ^^ 30) \<lparr>code = [], isLoading_v = False, isResending = False,
      resendCooldown = 30, email_v = js ''a@x.com'', verificationStatus = Pending\<rparr>) \<and>
   \<not> resendDisabled \<lparr>code = [], isLoading_v = False, isResending = False, resendCooldown = 0,
                      email_v = js ''a@x.com'', verificationStatus = Pending\<rparr> \<and>
   resendCooldown (fst (verifyStep
     \<lparr>isLoaded = True, setActive = True,
      signUp = Some \<lparr>status_su = js ''missing_requirements'',
                     emailAddress = Some (js ''a@x.com''), createdSessionId = None\<rparr>\<rparr>
     \<lparr>code = [], isLoading_v = False, isResending = False, resendCooldown = 0,
      email_v = js ''a@x.com'', verificationStatus = Pending\<rparr>
     (PressResend (Inr ())))) = 30"
  using C4_resend_cooldown
    [where s = "\<lparr>code = [], isLoading_v = False, isResending = False, resendCooldown = 30,
                 email_v = js ''a@x.com'', verificationStatus = Pending\<rparr>"
       and hook = "\<lparr>isLoaded = True, setActive = True,
          signUp = Some \<lparr>status_su = js ''missing_requirements'',
                         emailAddress = Some (js ''a@x.com''), createdSessionId = None\<rparr>\<rparr>"
       and r = "Inr ()" and k = 30 and evs = "[]" and params_email = None
       and su = "\<lparr>status_su = js ''missing_requirements'',
                         emailAddress = Some (js ''a@x.com''), createdSessionId = None\<rparr>"]
    C4_resend_cooldown
    [where s = "\<lparr>code = [], isLoading_v = False, isResending = False, resendCooldown = 0,
                 email_v = js ''a@x.com'', verificationStatus = Pending\<rparr>"
       and hook = "\<lparr>isLoaded = True, setActive = True,
          signUp = Some \<lparr>status_su = js ''missing_requirements'',
                         emailAddress = Some (js ''a@x.com''), createdSessionId = None\<rparr>\<rparr>"
       and r = "Inr ()" and k = 0 and evs = "[]" and params_email = None
       and su = "\<lparr>status_su = js ''missing_requirements'',
                         emailAddress = Some (js ''a@x.com''), createdSessionId = None\<rparr>"]
  by (simp add: resendDisabled_def js_def del: verifyStep.simps funpow.simps)

subsection \<open>The sign-in screen\<close>

lemma includes_nonempty: "includes_js e (n # ns) \<Longrightarrow> e \<noteq> []"
  by (cases e) simp_all

text \<open>
  The guard of \<open>handleSubmit\<close> by itself: run on a state whose email contains a space,
  it calls nothing. The fields never hold such a state, as shown next.
\<close>

lemma handleSubmit_space_guard:
  assumes "includes_js (email s) (js '' '')"
  shows "\<forall>ident pw. SignInCreate ident pw \<notin> set (snd (handleSubmit hook env s))"
proof -
  from assms have "email s \<noteq> []"
    using includes_nonempty [of "email s" 32 "[]"] by (simp add: js_def)
  with assms show ?thesis
    by (simp add: handleSubmit_def)
qed














subsection \<open>The profile screen\<close>

text \<open>
  C9. Confirming the deletion of the account closes the sheet and shows one alert, whose
  only button signs out; the handler calls nothing else, so nothing is deleted at the
  identity provider.
\<close>

theorem C9_delete_account_only_alerts_and_signs_out:
  "confirmDeleteAccount s =
     (s\<lparr>settingsVisible_p := False, deleteAccountVisible := False\<rparr>,
      [Alert (js ''Account Deletion Initiated'')
         (js ''Your account deletion has been done. Any remaining balance of $2,458.75 will be transferred to your registered bank account within 3-5 business days.'')
         [(js ''OK'', [SignOut])]])"
  by (simp add: confirmDeleteAccount_def closeSettings_p_def)

end
